theory Spec2Isabelle
  imports Main "HOL-Library.Word"
begin

section \<open>go-flink-sql: connector configuration and session lifecycle\<close>

text \<open>
  A shallow embedding of \<^verbatim>\<open>connector.go\<close> and \<^verbatim>\<open>driver.go\<close>. Go strings are byte
  sequences, so they are \<^typ>\<open>string\<close>. A Go map is a reference that may be \<^verbatim>\<open>nil\<close>:
  it is an optional partial function, \<open>None\<close> for \<^verbatim>\<open>nil\<close>. Pointers to structs are
  modelled by the struct value, returned updated where the code mutates it.
\<close>

subsection \<open>Remote types and errors\<close>

text \<open>
  Modelled from the spec: the declared remote type of a result column (section 3; the type
  descriptors of the package are not among the sources), as far as its family matters to
  decoding. \<open>UnknownType\<close> stands for every type that the table of section 4.5 lacks.
\<close>

datatype remote_type =
    TINYINT | SMALLINT | INTEGER | BIGINT | INTERVAL
  | FLOAT | DOUBLE
  | BOOLEAN
  | CHARACTER | VARCHAR | STRING
  | DATE | TIME | TIMESTAMP
  | BINARY | VARBINARY
  | ROW | MAP | ARRAY | MULTISET
  | UnknownType string

text \<open>
  Modelled from the spec: the error taxonomy of section 7 (the error types of the package
  are not among the sources), as the values of Go's \<^verbatim>\<open>error\<close>. The last constructor is
  from the code: \<open>Errorf p e\<close> is \<^verbatim>\<open>fmt.Errorf(p + "%w", e)\<close>, an error that wraps \<open>e\<close>.
\<close>

datatype error =
    ConnectionError string
  | GatewayError nat string
  | OperationFailed string
  | OperationCanceled
  | ContextCanceled
  | DeadlineExceeded
  | DecodeError string remote_type string
  | CursorClosed
  | ConfigError string
  | Errorf string error

text \<open>\<^verbatim>\<open>errors.As\<close> for the configuration error: looks through the wrappers.\<close>

fun is_ConfigError :: "error \<Rightarrow> bool" where
  "is_ConfigError (ConfigError m) = True"
| "is_ConfigError (Errorf p e) = is_ConfigError e"
| "is_ConfigError e = False"

subsection \<open>Strings\<close>

text \<open>
  \<^verbatim>\<open>strings.Cut(s, sep)\<close> for a separator of one byte: the text before the first
  occurrence of the separator, the text after it, and whether it occurs. Without an
  occurrence the result is \<^verbatim>\<open>(s, "", false)\<close>.
\<close>

fun Cut :: "string \<Rightarrow> char \<Rightarrow> string \<times> string \<times> bool" where
  "Cut [] sep = ([], [], False)"
| "Cut (x # xs) sep =
     (if x = sep then ([], xs, True)
      else (case Cut xs sep of (before, after, found) \<Rightarrow> (x # before, after, found)))"

subsection \<open>Configuration\<close>

type_synonym props = "(string \<rightharpoonup> string) option"

text \<open>The entries of a Go map; ranging over a \<^verbatim>\<open>nil\<close> map visits nothing.\<close>

definition entries :: "props \<Rightarrow> (string \<rightharpoonup> string)" where
  "entries p = (case p of None \<Rightarrow> Map.empty | Some m \<Rightarrow> m)"

text \<open>\<^verbatim>\<open>len(m)\<close> is zero for a \<^verbatim>\<open>nil\<close> map and for an empty one.\<close>

definition len_is_zero :: "props \<Rightarrow> bool" where
  "len_is_zero p = (dom (entries p) = {})"

text \<open>A \<^verbatim>\<open>*http.Client\<close>: \<^verbatim>\<open>nil\<close>, \<^verbatim>\<open>http.DefaultClient\<close>, or another client at some address.\<close>

datatype http_client = NilClient | DefaultClient | ClientAt nat

datatype go_context = Background | Ctx nat

record OpenSessionRequest =
  Properties :: props

record ConnConfig =
  GatewayURL :: string
  Client :: http_client
  APIVersion :: string
  Properties :: props

definition WithDefaults :: ConnConfig where
  "WithDefaults =
     \<lparr>GatewayURL = ''http://localhost:8081'',
      Client = DefaultClient,
      APIVersion = ''v3'',
      Properties = Some Map.empty\<rparr>"

type_synonym ConnOption = "ConnConfig \<Rightarrow> ConnConfig"

definition WithGatewayURL :: "string \<Rightarrow> ConnOption" where
  "WithGatewayURL gatewayUrl = (\<lambda>c. c\<lparr>GatewayURL := gatewayUrl\<rparr>)"

definition WithClient :: "http_client \<Rightarrow> ConnOption" where
  "WithClient cl = (\<lambda>c. c\<lparr>Client := cl\<rparr>)"

definition WithAPIVersion :: "string \<Rightarrow> ConnOption" where
  "WithAPIVersion apiVersion = (\<lambda>c. c\<lparr>APIVersion := apiVersion\<rparr>)"

text \<open>
  The loop \<^verbatim>\<open>for k, v := range properties { c.Properties[k] = v }\<close> stores every entry of
  \<open>properties\<close> into the map of the configuration. The keys of a map are distinct, so the
  order of the iteration does not matter: the result is the map overridden by \<open>properties\<close>.
\<close>

definition WithProperties :: "props \<Rightarrow> ConnOption" where
  "WithProperties properties = (\<lambda>c.
     let c1 = (if Properties c = None then c\<lparr>Properties := Some Map.empty\<rparr> else c)
     in c1\<lparr>Properties := Some (entries (Properties c1) ++ entries properties)\<rparr>)"

subsection \<open>The gateway client\<close>

text \<open>
  \<^verbatim>\<open>GatewayClient\<close> is an interface; the two methods the connector calls are modelled.
  A call acts on the remote gateway, whose state \<open>'w\<close> is threaded through. A method of
  Go returns both its value and its error, so \<open>OpenSession\<close> returns a pair.
\<close>

record 'w GatewayClient =
  OpenSession :: "go_context \<Rightarrow> OpenSessionRequest \<Rightarrow> 'w \<Rightarrow> (string \<times> error option) \<times> 'w"
  CloseSession :: "go_context \<Rightarrow> string \<Rightarrow> 'w \<Rightarrow> error option \<times> 'w"

text \<open>
  The world a connector runs in: the state of the gateway and, as a ghost variable, the
  list of the gateway calls issued so far, oldest first.
\<close>

datatype gateway_call = OpenSessionCall OpenSessionRequest | CloseSessionCall string

record 'w world =
  gateway :: 'w
  calls :: "gateway_call list"

definition do_OpenSession ::
  "'w GatewayClient \<Rightarrow> go_context \<Rightarrow> OpenSessionRequest \<Rightarrow> 'w world \<Rightarrow> (string \<times> error option) \<times> 'w world" where
  "do_OpenSession cl ctx req s =
     (case OpenSession cl ctx req (gateway s) of
        (r, g) \<Rightarrow> (r, \<lparr>gateway = g, calls = calls s @ [OpenSessionCall req]\<rparr>))"

definition do_CloseSession ::
  "'w GatewayClient \<Rightarrow> go_context \<Rightarrow> string \<Rightarrow> 'w world \<Rightarrow> error option \<times> 'w world" where
  "do_CloseSession cl ctx h s =
     (case CloseSession cl ctx h (gateway s) of
        (r, g) \<Rightarrow> (r, \<lparr>gateway = g, calls = calls s @ [CloseSessionCall h]\<rparr>))"

subsection \<open>The connector\<close>

record 'w flinkConn =
  client :: "'w GatewayClient"
  sessionHandle :: string

record 'w connector =
  client :: "'w GatewayClient"
  sessionHandle :: string
  config :: ConnConfig
  properties :: props

text \<open>
  The functions of the package that \<^verbatim>\<open>NewConnector\<close> and \<^verbatim>\<open>OpenConnector\<close> call and whose
  bodies are in other files: they are parameters of the model. \<open>mergeProperties\<close> is taken
  to return its result without changing the map it is given.
\<close>

record 'w package =
  mergeProperties :: "string \<Rightarrow> props \<Rightarrow> error + props"
  NewClient :: "string \<Rightarrow> http_client \<Rightarrow> string \<Rightarrow> error + 'w GatewayClient"
  parseURIParameters :: "string \<Rightarrow> error + props"

definition NewConnector :: "'w package \<Rightarrow> ConnOption list \<Rightarrow> error + 'w connector" where
  "NewConnector pkg options =
     (let cfg = foldl (\<lambda>cfg opt. opt cfg) WithDefaults options in
      case mergeProperties pkg (GatewayURL cfg) (Properties cfg) of
        Inl err \<Rightarrow> Inl (Errorf ''flink: error while merging connector properties: '' err)
      | Inr mergedProps \<Rightarrow>
          (case NewClient pkg (GatewayURL cfg) (Client cfg) (APIVersion cfg) of
             Inl err \<Rightarrow> Inl (Errorf ''flink: error while creating flink client: '' err)
           | Inr flinkClient \<Rightarrow>
               Inr \<lparr>client = flinkClient, sessionHandle = '''', config = cfg,
                    properties = mergedProps\<rparr>))"

text \<open>
  \<open>Connect\<close> returns the result, the connector (whose handle it may have assigned) and the
  world. The assignment \<^verbatim>\<open>c.sessionHandle, err = c.client.OpenSession(...)\<close> stores the
  returned string before the error is looked at.
\<close>

definition Connect ::
  "'w connector \<Rightarrow> go_context \<Rightarrow> 'w world \<Rightarrow> (error + 'w flinkConn) \<times> 'w connector \<times> 'w world" where
  "Connect c ctx s =
     (if sessionHandle c = '''' then
        (case do_OpenSession (client c) ctx \<lparr>OpenSessionRequest.Properties = properties c\<rparr> s of
           ((h, err), s') \<Rightarrow>
             (let c' = c\<lparr>sessionHandle := h\<rparr> in
              case err of
                Some e \<Rightarrow> (Inl (Errorf ''flink: failed to open session: '' e), c', s')
              | None \<Rightarrow>
                  (Inr \<lparr>flinkConn.client = client c', flinkConn.sessionHandle = sessionHandle c'\<rparr>,
                   c', s')))
      else
        (Inr \<lparr>flinkConn.client = client c, flinkConn.sessionHandle = sessionHandle c\<rparr>, c, s))"

text \<open>\<open>Close\<close> drops the error that \<open>CloseSession\<close> returns.\<close>

definition Close :: "'w connector \<Rightarrow> 'w world \<Rightarrow> error option \<times> 'w connector \<times> 'w world" where
  "Close c s =
     (if sessionHandle c \<noteq> '''' then
        (case do_CloseSession (client c) Background (sessionHandle c) s of
           (_, s') \<Rightarrow> (None, c, s'))
      else (None, c, s))"

definition OpenConnector :: "'w package \<Rightarrow> string \<Rightarrow> error + 'w connector" where
  "OpenConnector pkg dsn =
     (let r =
        (case Cut dsn CHR ''?'' of
           (trimmed, rawQuery, found) \<Rightarrow>
             if found then
               (if rawQuery \<noteq> '''' then
                  (case parseURIParameters pkg rawQuery of
                     Inl err \<Rightarrow> Inl (Errorf ''flink: invalid DSN properties: '' err)
                   | Inr parsed \<Rightarrow> Inr (trimmed, parsed))
                else Inr (trimmed, None))
             else Inr (dsn, None))
      in case r of
           Inl err \<Rightarrow> Inl err
         | Inr (baseDSN, dsnProperties) \<Rightarrow>
             (let options =
                [WithGatewayURL baseDSN] @
                (if \<not> len_is_zero dsnProperties then [WithProperties dsnProperties] else [])
              in case NewConnector pkg options of
                   Inl err \<Rightarrow> Inl err
                 | Inr connector \<Rightarrow> Inr connector))"

definition Open :: "'w package \<Rightarrow> string \<Rightarrow> 'w world \<Rightarrow> (error + 'w flinkConn) \<times> 'w world" where
  "Open pkg dsn s =
     (case OpenConnector pkg dsn of
        Inl err \<Rightarrow> (Inl err, s)
      | Inr conn \<Rightarrow> (case Connect conn Background s of (r, c, s') \<Rightarrow> (r, s')))"

subsection \<open>Histories of a connector\<close>

text \<open>
  What can happen to one connector over time: a call of \<open>Connect\<close>, a call of \<open>Close\<close>,
  or a change of the gateway caused elsewhere (by a connection, by another client). The
  calls on one connector come one after the other; the connector has no lock, and calls
  that overlap in time are outside this model.
\<close>

datatype 'w connector_op = DoConnect go_context | DoClose | Elsewhere "'w \<Rightarrow> 'w"

datatype 'w op_result = Connected "error + 'w flinkConn" | Closed "error option" | Skipped

fun run ::
  "'w connector \<Rightarrow> 'w connector_op list \<Rightarrow> 'w world \<Rightarrow> 'w op_result list \<times> 'w connector \<times> 'w world" where
  "run c [] s = ([], c, s)"
| "run c (DoConnect ctx # ops) s =
     (case Connect c ctx s of
        (r, c', s') \<Rightarrow> (case run c' ops s' of (rs, c'', s'') \<Rightarrow> (Connected r # rs, c'', s'')))"
| "run c (DoClose # ops) s =
     (case Close c s of
        (r, c', s') \<Rightarrow> (case run c' ops s' of (rs, c'', s'') \<Rightarrow> (Closed r # rs, c'', s'')))"
| "run c (Elsewhere f # ops) s =
     (case run c ops (s\<lparr>gateway := f (gateway s)\<rparr>) of
        (rs, c'', s'') \<Rightarrow> (Skipped # rs, c'', s''))"

fun is_OpenSessionCall :: "gateway_call \<Rightarrow> bool" where
  "is_OpenSessionCall (OpenSessionCall req) = True"
| "is_OpenSessionCall (CloseSessionCall h) = False"

fun is_DoClose :: "'w connector_op \<Rightarrow> bool" where
  "is_DoClose DoClose = True"
| "is_DoClose (DoConnect ctx) = False"
| "is_DoClose (Elsewhere f) = False"

subsection \<open>The options of the package as data\<close>

text \<open>
  The four options that the package exports, as data, so that a statement can range over
  every list of them; \<open>option_of\<close> gives the option of the code.
\<close>

datatype supplied_option =
    GatewayURLOption string
  | ClientOption http_client
  | APIVersionOption string
  | PropertiesOption props

fun option_of :: "supplied_option \<Rightarrow> ConnOption" where
  "option_of (GatewayURLOption u) = WithGatewayURL u"
| "option_of (ClientOption h) = WithClient h"
| "option_of (APIVersionOption v) = WithAPIVersion v"
| "option_of (PropertiesOption p) = WithProperties p"

text \<open>
  What the claim says of each field, written from its words to be compared with the code:
  a field is set by the options of its own kind only. The gateway URL, the client and the
  API version have the value of the last option of their kind, and the default without
  one; the property map collects the maps of the property options, later ones overriding
  earlier ones.
\<close>

fun claimed_GatewayURL :: "string \<Rightarrow> supplied_option list \<Rightarrow> string" where
  "claimed_GatewayURL d [] = d"
| "claimed_GatewayURL d (GatewayURLOption u # xs) = claimed_GatewayURL u xs"
| "claimed_GatewayURL d (x # xs) = claimed_GatewayURL d xs"

fun claimed_Client :: "http_client \<Rightarrow> supplied_option list \<Rightarrow> http_client" where
  "claimed_Client d [] = d"
| "claimed_Client d (ClientOption h # xs) = claimed_Client h xs"
| "claimed_Client d (x # xs) = claimed_Client d xs"

fun claimed_APIVersion :: "string \<Rightarrow> supplied_option list \<Rightarrow> string" where
  "claimed_APIVersion d [] = d"
| "claimed_APIVersion d (APIVersionOption v # xs) = claimed_APIVersion v xs"
| "claimed_APIVersion d (x # xs) = claimed_APIVersion d xs"

fun claimed_Properties :: "(string \<rightharpoonup> string) \<Rightarrow> supplied_option list \<Rightarrow> (string \<rightharpoonup> string)" where
  "claimed_Properties d [] = d"
| "claimed_Properties d (PropertiesOption p # xs) = claimed_Properties (d ++ entries p) xs"
| "claimed_Properties d (x # xs) = claimed_Properties d xs"

section \<open>Parts of the package described by the specification\<close>

subsection \<open>Connection-string parameters\<close>

text \<open>
  Modelled from the spec: the fragments of a query string (the body of
  \<^verbatim>\<open>parseURIParameters\<close> is not among the sources). The query
  \<^verbatim>\<open>key=value&key2=value2\<close> is a sequence of fragments separated by \<^verbatim>\<open>&\<close>; the
  empty query has one empty fragment.
\<close>

fun Split :: "string \<Rightarrow> char \<Rightarrow> string list" where
  "Split [] sep = [[]]"
| "Split (x # xs) sep =
     (if x = sep then [] # Split xs sep
      else (case Split xs sep of [] \<Rightarrow> [[x]] | p # ps \<Rightarrow> (x # p) # ps))"

text \<open>
  Modelled from the spec: reading the fragments in order (part of \<^verbatim>\<open>parseURIParameters\<close>,
  not among the sources). A fragment \<^verbatim>\<open>key=value\<close> sets the key, the last one winning for
  a repeated key; a fragment without \<^verbatim>\<open>=\<close> is a configuration error, not ignored.
\<close>

fun parse_fragments :: "string list \<Rightarrow> (string \<rightharpoonup> string) \<Rightarrow> error + props" where
  "parse_fragments [] m = Inr (Some m)"
| "parse_fragments (f # fs) m =
     (case Cut f CHR ''='' of
        (key, val, found) \<Rightarrow>
          if found then parse_fragments fs (m(key \<mapsto> val))
          else Inl (ConfigError f))"

text \<open>
  Modelled from the spec: \<^verbatim>\<open>parseURIParameters\<close>, which \<^verbatim>\<open>OpenConnector\<close> calls and
  whose body is not among the sources. Query parameters \<^verbatim>\<open>?key=value&key2=value2\<close>
  are session properties; a malformed fragment (a key with no \<^verbatim>\<open>=value\<close>) is a
  configuration error.
\<close>

definition spec_parseURIParameters :: "string \<Rightarrow> error + props" where
  "spec_parseURIParameters rawQuery = parse_fragments (Split rawQuery CHR ''&'') Map.empty"

text \<open>
  Modelled from the spec: \<^verbatim>\<open>mergeProperties\<close>, which \<^verbatim>\<open>NewConnector\<close> calls and whose
  body is not among the sources. The properties derived from the query of the gateway URL
  are merged with the explicit ones; explicit properties override URL-derived ones on key
  collision.
\<close>

definition spec_mergeProperties :: "string \<Rightarrow> props \<Rightarrow> error + props" where
  "spec_mergeProperties gatewayURL explicit =
     (case Cut gatewayURL CHR ''?'' of
        (base, rawQuery, found) \<Rightarrow>
          if found \<and> rawQuery \<noteq> [] then
            (case spec_parseURIParameters rawQuery of
               Inl err \<Rightarrow> Inl err
             | Inr urlProps \<Rightarrow> Inr (Some (entries urlProps ++ entries explicit)))
          else Inr (Some (entries explicit)))"

text \<open>
  Modelled from the spec: the package with the two functions above; \<^verbatim>\<open>NewClient\<close>,
  of which the specification says nothing, stays a parameter.
\<close>

definition spec_package ::
  "(string \<Rightarrow> http_client \<Rightarrow> string \<Rightarrow> error + 'w GatewayClient) \<Rightarrow> 'w package" where
  "spec_package newClient =
     \<lparr>mergeProperties = spec_mergeProperties,
      NewClient = newClient,
      parseURIParameters = spec_parseURIParameters\<rparr>"

text \<open>
  Modelled from the spec: the text of a well-formed query \<^verbatim>\<open>k1=v1&k2=v2\<close> for a list of
  keys and values (used to state what parsing yields; no source function).
\<close>

fun query_of :: "(string \<times> string) list \<Rightarrow> string" where
  "query_of [] = []"
| "query_of [(k, v)] = k @ ''='' @ v"
| "query_of ((k, v) # kv # kvs) = k @ ''='' @ v @ ''&'' @ query_of (kv # kvs)"

text \<open>
  Modelled from the spec: one fragment \<^verbatim>\<open>key=value\<close> of a well-formed query (used to state
  what parsing yields; no source function).
\<close>

definition fragment :: "string \<times> string \<Rightarrow> string" where
  "fragment kv = fst kv @ ''='' @ snd kv"

text \<open>
  Modelled from the spec: a key and a value that a well-formed query can carry: the key has
  no \<^verbatim>\<open>=\<close>, and neither has a \<^verbatim>\<open>&\<close> (used to state what parsing yields; no source
  function).
\<close>

definition plain :: "(string \<times> string) \<Rightarrow> bool" where
  "plain kv =
     (CHR ''='' \<notin> set (fst kv) \<and> CHR ''&'' \<notin> set (fst kv) \<and> CHR ''&'' \<notin> set (snd kv))"

subsection \<open>Operation Poller\<close>

datatype op_status = PENDING | RUNNING | FINISHED | ERROR | CANCELED

record Operation =
  opHandle :: string
  opSessionHandle :: string
  status :: op_status
  errorMessage :: "string option"

text \<open>
  Modelled from the spec: what one round of the poller observes (the poller is not among
  the sources): the caller's context is canceled or past its deadline, the status call
  fails, or the status call returns the operation.
\<close>

datatype poll_event =
    ContextIsCanceled
  | ContextIsExpired
  | StatusFailed error
  | StatusIs Operation

text \<open>
  Modelled from the spec: the Operation Poller (section 4.2; not among the sources), run
  on the sequence of what its successive rounds observe. On FINISHED it terminates
  successfully, on ERROR with \<open>OperationFailed\<close> and the message, on CANCELED with
  \<open>OperationCanceled\<close>; on a non-terminal status it waits and polls again; a failed call
  propagates; a canceled context ends polling with the context's error, after a
  best-effort \<^verbatim>\<open>cancelOperation\<close> (the second component of the result). \<open>None\<close>: the
  observations ended while the poller was still waiting.
\<close>

fun poll :: "poll_event list \<Rightarrow> ((error + unit) \<times> bool) option" where
  "poll [] = None"
| "poll (ContextIsCanceled # es) = Some (Inl ContextCanceled, True)"
| "poll (ContextIsExpired # es) = Some (Inl DeadlineExceeded, True)"
| "poll (StatusFailed err # es) = Some (Inl err, False)"
| "poll (StatusIs operation # es) =
     (case status operation of
        FINISHED \<Rightarrow> Some (Inr (), False)
      | ERROR \<Rightarrow>
          Some (Inl (OperationFailed
                      (case errorMessage operation of None \<Rightarrow> [] | Some m \<Rightarrow> m)), False)
      | CANCELED \<Rightarrow> Some (Inl OperationCanceled, False)
      | PENDING \<Rightarrow> poll es
      | RUNNING \<Rightarrow> poll es)"

text \<open>
  Modelled from the spec: a round after which the poller keeps polling, one that observes
  a non-terminal status.
\<close>

fun waiting :: "poll_event \<Rightarrow> bool" where
  "waiting (StatusIs operation) = (status operation = PENDING \<or> status operation = RUNNING)"
| "waiting e = False"

subsection \<open>Wire values and result pages\<close>

type_synonym byte = "8 word"

text \<open>
  Modelled from the spec: a cell on the wire (section 3; the decoder is not among the
  sources) is the null marker or a payload of bytes: a literal, or the text of a
  structure.
\<close>

datatype wire_value = NullMarker | Payload "byte list"

type_synonym RawRow = "wire_value list"

record ColumnMeta =
  name :: string
  remoteType :: remote_type
  nullable :: bool

record ResultPage =
  columns :: "ColumnMeta list"
  rows :: "RawRow list"
  nextPageToken :: "string option"

subsection \<open>Result Pager\<close>

text \<open>
  Modelled from the spec: the Result Pager (section 4.3; not among the sources). The
  first fetch carries no token, each later one the token of the page before, until a page
  has no token; the rows come out in page order. A failed fetch fails the whole
  iteration. The number of fetches is bounded by the fuel; \<open>None\<close>: the fuel ran out
  before a page without a token.
\<close>

fun pager ::
  "nat \<Rightarrow> (string option \<Rightarrow> error + ResultPage) \<Rightarrow> string option \<Rightarrow> (error + RawRow list) option" where
  "pager 0 fetch token = None"
| "pager (Suc fuel) fetch token =
     (case fetch token of
        Inl err \<Rightarrow> Some (Inl err)
      | Inr page \<Rightarrow>
          (case nextPageToken page of
             None \<Rightarrow> Some (Inr (rows page))
           | Some t \<Rightarrow>
               (case pager fuel fetch (Some t) of
                  None \<Rightarrow> None
                | Some (Inl err) \<Rightarrow> Some (Inl err)
                | Some (Inr rest) \<Rightarrow> Some (Inr (rows page @ rest)))))"

text \<open>
  Modelled from the spec: a finite chain of pages \<open>P1, ..., Pn\<close> served from a token: the
  fetch with this token returns \<open>P1\<close>, every page but the last carries the token of the
  next one, and only the last page has no token.
\<close>

fun chain :: "(string option \<Rightarrow> error + ResultPage) \<Rightarrow> string option \<Rightarrow> ResultPage list \<Rightarrow> bool" where
  "chain fetch token [] = False"
| "chain fetch token [p] = (fetch token = Inr p \<and> nextPageToken p = None)"
| "chain fetch token (p # q # ps) =
     (fetch token = Inr p \<and> nextPageToken p \<noteq> None \<and> chain fetch (nextPageToken p) (q # ps))"

subsection \<open>Wire Value Decoder\<close>

text \<open>
  Modelled from the spec: the decoded value of a cell (section 3), tagged by a small closed
  set of types. A 64-bit float is kept as its bit pattern, a timestamp as a count of
  nanoseconds.
\<close>

datatype DecodedValue =
    DInt64 "64 word"
  | DFloat64 "64 word"
  | DBool bool
  | DString string
  | DBytes "byte list"
  | DTimestamp int
  | Absent

text \<open>
  Modelled from the spec: the primitives that read a literal from a payload, which the
  specification assumes available and does not describe.
\<close>

record primitives =
  read_int :: "byte list \<Rightarrow> 64 word option"
  read_float :: "byte list \<Rightarrow> 64 word option"
  read_bool :: "byte list \<Rightarrow> bool option"
  read_string :: "byte list \<Rightarrow> string option"
  read_time :: "remote_type \<Rightarrow> byte list \<Rightarrow> int option"

datatype type_family =
    IntegerFamily | FloatFamily | BooleanFamily | CharacterFamily | TemporalFamily
  | BinaryFamily | StructuredFamily | Unrecognized

text \<open>Modelled from the spec: the families of the declared-type table of section 4.5.\<close>

fun family :: "remote_type \<Rightarrow> type_family" where
  "family TINYINT = IntegerFamily"
| "family SMALLINT = IntegerFamily"
| "family INTEGER = IntegerFamily"
| "family BIGINT = IntegerFamily"
| "family INTERVAL = IntegerFamily"
| "family FLOAT = FloatFamily"
| "family DOUBLE = FloatFamily"
| "family BOOLEAN = BooleanFamily"
| "family CHARACTER = CharacterFamily"
| "family VARCHAR = CharacterFamily"
| "family STRING = CharacterFamily"
| "family DATE = TemporalFamily"
| "family TIME = TemporalFamily"
| "family TIMESTAMP = TemporalFamily"
| "family BINARY = BinaryFamily"
| "family VARBINARY = BinaryFamily"
| "family ROW = StructuredFamily"
| "family MAP = StructuredFamily"
| "family ARRAY = StructuredFamily"
| "family MULTISET = StructuredFamily"
| "family (UnknownType t) = Unrecognized"

text \<open>Modelled from the spec: a literal that its primitive cannot read is a decode error.\<close>

definition literal ::
  "ColumnMeta \<Rightarrow> 'a option \<Rightarrow> ('a \<Rightarrow> DecodedValue) \<Rightarrow> error + DecodedValue" where
  "literal col r tag =
     (case r of
        None \<Rightarrow> Inl (DecodeError (name col) (remoteType col) ''malformed literal'')
      | Some v \<Rightarrow> Inr (tag v))"

text \<open>
  Modelled from the spec: the Wire Value Decoder (section 4.5; not among the sources). A
  null marker decodes to \<open>Absent\<close> in a nullable column, whatever the declared type, and
  fails in a non-nullable one. Another cell is decoded by the family of the declared
  type; binary and structured cells decode to their bytes as they are; a type outside the
  table is an error.
\<close>

definition decode :: "primitives \<Rightarrow> wire_value \<Rightarrow> ColumnMeta \<Rightarrow> error + DecodedValue" where
  "decode prim cell col =
     (case cell of
        NullMarker \<Rightarrow>
          if nullable col then Inr Absent
          else Inl (DecodeError (name col) (remoteType col) ''null in a non-nullable column'')
      | Payload b \<Rightarrow>
          (case family (remoteType col) of
             IntegerFamily \<Rightarrow> literal col (read_int prim b) DInt64
           | FloatFamily \<Rightarrow> literal col (read_float prim b) DFloat64
           | BooleanFamily \<Rightarrow> literal col (read_bool prim b) DBool
           | CharacterFamily \<Rightarrow> literal col (read_string prim b) DString
           | TemporalFamily \<Rightarrow> literal col (read_time prim (remoteType col) b) DTimestamp
           | BinaryFamily \<Rightarrow> Inr (DBytes b)
           | StructuredFamily \<Rightarrow> Inr (DBytes b)
           | Unrecognized \<Rightarrow>
               Inl (DecodeError (name col) (remoteType col) ''unrecognized type'')))"

text \<open>\<open>errors.As\<close> for the decode error.\<close>

fun is_DecodeError :: "error \<Rightarrow> bool" where
  "is_DecodeError (DecodeError c t m) = True"
| "is_DecodeError (Errorf p e) = is_DecodeError e"
| "is_DecodeError e = False"


subsection \<open>Example inputs\<close>

text \<open>A gateway client that always hands out the handle \<^verbatim>\<open>session-1\<close> and fails to close it.\<close>

definition example_client :: "nat GatewayClient" where
  "example_client =
     \<lparr>OpenSession = (\<lambda>ctx req n. ((''session-1'', None), Suc n)),
      CloseSession = (\<lambda>ctx h n. (Some (GatewayError 500 ''gateway is down''), n))\<rparr>"

text \<open>A gateway client whose \<open>OpenSession\<close> answers without an error and without a handle.\<close>

definition blank_client :: "nat GatewayClient" where
  "blank_client =
     \<lparr>OpenSession = (\<lambda>ctx req n. (('''', None), Suc n)),
      CloseSession = (\<lambda>ctx h n. (None, n))\<rparr>"

definition example_package :: "nat package" where
  "example_package =
     \<lparr>mergeProperties = (\<lambda>url p. Inr p),
      NewClient = (\<lambda>url h v. Inr example_client),
      parseURIParameters = (\<lambda>q. Inr None)\<rparr>"

definition fresh_connector :: "nat connector" where
  "fresh_connector =
     \<lparr>client = example_client, sessionHandle = '''', config = WithDefaults,
      properties = Some Map.empty\<rparr>"

definition idle_world :: "nat world" where
  "idle_world = \<lparr>gateway = 0, calls = []\<rparr>"

definition session1_conn :: "nat flinkConn" where
  "session1_conn = \<lparr>flinkConn.client = example_client, flinkConn.sessionHandle = ''session-1''\<rparr>"

definition session1_connector :: "nat connector" where
  "session1_connector = fresh_connector\<lparr>sessionHandle := ''session-1''\<rparr>"

definition blank_connector :: "nat connector" where
  "blank_connector = fresh_connector\<lparr>client := blank_client\<rparr>"

definition example_newClient :: "string \<Rightarrow> http_client \<Rightarrow> string \<Rightarrow> error + nat GatewayClient" where
  "example_newClient url h v = Inr example_client"

definition merged_connector :: "nat connector" where
  "merged_connector =
     \<lparr>client = example_client, sessionHandle = '''',
      config = \<lparr>GatewayURL = ''http://gw:8083?a=1&b=2'', Client = DefaultClient,
                APIVersion = ''v3'', Properties = Some [''a'' \<mapsto> ''9'']\<rparr>,
      properties = Some [''a'' \<mapsto> ''9'', ''b'' \<mapsto> ''2'']\<rparr>"

definition example_operation :: "op_status \<Rightarrow> string option \<Rightarrow> Operation" where
  "example_operation st msg =
     \<lparr>opHandle = ''operation-1'', opSessionHandle = ''session-1'', status = st,
      errorMessage = msg\<rparr>"

definition example_page :: "RawRow list \<Rightarrow> string option \<Rightarrow> ResultPage" where
  "example_page rs token =
     \<lparr>columns = [\<lparr>name = ''id'', remoteType = INTEGER, nullable = False\<rparr>],
      rows = rs, nextPageToken = token\<rparr>"

text \<open>Three pages in a chain; the second one is empty and carries a token.\<close>

definition example_fetch :: "string option \<Rightarrow> error + ResultPage" where
  "example_fetch token =
     (if token = None then Inr (example_page [[Payload [49]], [Payload [50]]] (Some ''1''))
      else if token = Some ''1'' then Inr (example_page [] (Some ''2''))
      else if token = Some ''2'' then Inr (example_page [[Payload [51]]] None)
      else Inl (GatewayError 404 ''no such page''))"

definition example_primitives :: primitives where
  "example_primitives =
     \<lparr>read_int = (\<lambda>b. None), read_float = (\<lambda>b. None), read_bool = (\<lambda>b. None),
      read_string = (\<lambda>b. None), read_time = (\<lambda>t b. None)\<rparr>"

text \<open>A gateway client that cannot be reached: \<open>OpenSession\<close> fails and returns no handle.\<close>

definition refusing_client :: "nat GatewayClient" where
  "refusing_client =
     \<lparr>OpenSession = (\<lambda>ctx req n. (('''', Some (ConnectionError ''connection refused'')), n)),
      CloseSession = (\<lambda>ctx h n. (Some (ConnectionError ''connection refused''), n))\<rparr>"

definition refused_connector :: "nat connector" where
  "refused_connector = fresh_connector\<lparr>client := refusing_client\<rparr>"

section \<open>Properties\<close>

subsection \<open>Closing a connector\<close>

lemma NewConnector_handle:
  "NewConnector pkg options = Inr c \<Longrightarrow> sessionHandle c = ''''"
  by (auto simp: NewConnector_def Let_def split: sum.splits)

lemma Connect_failed_without_handle:
  assumes "sessionHandle c0 = ''''"
    and "Connect c0 ctx s0 = (Inl e, c, s)"
    and "fst (fst (OpenSession (client c0) ctx
                    \<lparr>OpenSessionRequest.Properties = properties c0\<rparr> (gateway s0))) = ''''"
  shows "sessionHandle c = ''''"
  using assms
  by (auto simp: Connect_def do_OpenSession_def Let_def split: prod.splits option.splits)

text \<open>
  C8. \<open>Close\<close> always returns \<^verbatim>\<open>nil\<close> and leaves the connector as it is, whatever
  \<open>CloseSession\<close> answers. With a handle it issues exactly one \<open>CloseSession\<close> call for
  that handle. With an empty handle it issues no gateway call and the world is unchanged;
  the handle is empty in every connector that \<open>NewConnector\<close> has just built, and it stays
  empty after a \<open>Connect\<close> that failed because \<open>OpenSession\<close> returned an error and no
  handle.
\<close>

theorem Close_swallows_errors:
  "fst (Close c s) = None
   \<and> fst (snd (Close c s)) = c
   \<and> (sessionHandle c = '''' \<longrightarrow> snd (snd (Close c s)) = s)
   \<and> (sessionHandle c \<noteq> '''' \<longrightarrow>
        calls (snd (snd (Close c s))) = calls s @ [CloseSessionCall (sessionHandle c)])
   \<and> (NewConnector pkg options = Inr c \<longrightarrow> Close c s = (None, c, s))
   \<and> (sessionHandle c0 = '''' \<longrightarrow> Connect c0 ctx s0 = (Inl e, c, s) \<longrightarrow>
        fst (fst (OpenSession (client c0) ctx
                   \<lparr>OpenSessionRequest.Properties = properties c0\<rparr> (gateway s0))) = '''' \<longrightarrow>
        Close c s = (None, c, s))"
proof -
  have a: "fst (Close c s) = None" "fst (snd (Close c s)) = c"
    by (simp_all add: Close_def split: prod.splits)
  have b: "sessionHandle c = '''' \<longrightarrow> snd (snd (Close c s)) = s"
    by (simp add: Close_def)
  have d: "sessionHandle c \<noteq> '''' \<longrightarrow>
        calls (snd (snd (Close c s))) = calls s @ [CloseSessionCall (sessionHandle c)]"
    by (auto simp: Close_def do_CloseSession_def split: prod.splits)
  have e: "NewConnector pkg options = Inr c \<longrightarrow> Close c s = (None, c, s)"
    using NewConnector_handle by (auto simp: Close_def)
  have f: "sessionHandle c0 = '''' \<longrightarrow> Connect c0 ctx s0 = (Inl e, c, s) \<longrightarrow>
        fst (fst (OpenSession (client c0) ctx
                   \<lparr>OpenSessionRequest.Properties = properties c0\<rparr> (gateway s0))) = '''' \<longrightarrow>
        Close c s = (None, c, s)"
  proof (intro impI)
    assume "sessionHandle c0 = []" and "Connect c0 ctx s0 = (Inl e, c, s)"
      and "fst (fst (OpenSession (client c0) ctx
                   \<lparr>OpenSessionRequest.Properties = properties c0\<rparr> (gateway s0))) = []"
    then have "sessionHandle c = []"
      by (rule Connect_failed_without_handle)
    then show "Close c s = (None, c, s)"
      by (simp add: Close_def)
  qed
  from a b d e f show ?thesis by blast
qed

theorem Close_swallows_errors_witness:
  "NewConnector example_package [] = Inr fresh_connector
   \<and> Close fresh_connector idle_world = (None, fresh_connector, idle_world)
   \<and> fst (CloseSession example_client Background ''session-1'' 1)
       = Some (GatewayError 500 ''gateway is down'')
   \<and> fst (Close (fresh_connector\<lparr>sessionHandle := ''session-1''\<rparr>) \<lparr>gateway = 1, calls = []\<rparr>)
       = None
   \<and> calls (snd (snd (Close (fresh_connector\<lparr>sessionHandle := ''session-1''\<rparr>)
                              \<lparr>gateway = 1, calls = []\<rparr>)))
       = [CloseSessionCall ''session-1'']
   \<and> Connect refused_connector Background idle_world =
       (Inl (Errorf ''flink: failed to open session: '' (ConnectionError ''connection refused'')),
        refused_connector,
        \<lparr>gateway = 0,
         calls = [OpenSessionCall \<lparr>OpenSessionRequest.Properties = properties refused_connector\<rparr>]\<rparr>)
   \<and> Close refused_connector
         \<lparr>gateway = 0,
          calls = [OpenSessionCall \<lparr>OpenSessionRequest.Properties = properties refused_connector\<rparr>]\<rparr> =
       (None, refused_connector,
        \<lparr>gateway = 0,
         calls = [OpenSessionCall \<lparr>OpenSessionRequest.Properties = properties refused_connector\<rparr>]\<rparr>)"
proof -
  have n: "NewConnector example_package [] = Inr fresh_connector"
    by (simp add: NewConnector_def example_package_def fresh_connector_def WithDefaults_def)
  have h: "sessionHandle (fresh_connector\<lparr>sessionHandle := ''session-1''\<rparr>) \<noteq> ''''"
    by simp
  have e: "sessionHandle fresh_connector = ''''"
    by (simp add: fresh_connector_def)
  have r: "sessionHandle refused_connector = ''''"
    by (simp add: refused_connector_def fresh_connector_def)
  have k: "Connect refused_connector Background idle_world =
       (Inl (Errorf ''flink: failed to open session: '' (ConnectionError ''connection refused'')),
        refused_connector,
        \<lparr>gateway = 0,
         calls = [OpenSessionCall \<lparr>OpenSessionRequest.Properties = properties refused_connector\<rparr>]\<rparr>)"
    by (simp add: Connect_def do_OpenSession_def refused_connector_def refusing_client_def
        fresh_connector_def idle_world_def)
  have o: "fst (fst (OpenSession (client refused_connector) Background
                   \<lparr>OpenSessionRequest.Properties = properties refused_connector\<rparr>
                   (gateway idle_world))) = ''''"
    by (simp add: refused_connector_def refusing_client_def)
  show ?thesis
    using n h e r k o
      Close_swallows_errors [of fresh_connector idle_world example_package "[]"]
      Close_swallows_errors [of "fresh_connector\<lparr>sessionHandle := ''session-1''\<rparr>"
        "\<lparr>gateway = 1, calls = []\<rparr>"]
      Close_swallows_errors [where ?c0.0 = refused_connector and ctx = Background
        and ?s0.0 = idle_world and c = refused_connector
        and s = "\<lparr>gateway = 0,
         calls = [OpenSessionCall \<lparr>OpenSessionRequest.Properties = properties refused_connector\<rparr>]\<rparr>"
        and e = "Errorf ''flink: failed to open session: '' (ConnectionError ''connection refused'')"]
    by (simp add: example_client_def)
qed

lemma Connect_with_handle:
  "sessionHandle c \<noteq> '''' \<Longrightarrow>
   Connect c ctx s =
     (Inr \<lparr>flinkConn.client = client c, flinkConn.sessionHandle = sessionHandle c\<rparr>, c, s)"
  by (simp add: Connect_def)

lemma Close_with_handle:
  "sessionHandle c \<noteq> '''' \<Longrightarrow> Close c s = (r, c', s') \<Longrightarrow>
   r = None \<and> c' = c \<and> calls s' = calls s @ [CloseSessionCall (sessionHandle c)]"
  by (auto simp: Close_def do_CloseSession_def split: prod.splits)

lemma run_with_handle:
  "sessionHandle c \<noteq> '''' \<Longrightarrow> run c ops s = (rs, c', s') \<Longrightarrow>
   c' = c
   \<and> (\<forall>x. Connected x \<in> set rs \<longrightarrow>
          x = Inr \<lparr>flinkConn.client = client c, flinkConn.sessionHandle = sessionHandle c\<rparr>)
   \<and> calls s' =
       calls s @ replicate (length (filter is_DoClose ops)) (CloseSessionCall (sessionHandle c))"
proof (induction ops arbitrary: s rs s' c')
  case Nil
  then show ?case by simp
next
  case (Cons op ops)
  show ?case
  proof (cases op)
    case (DoConnect ctx)
    obtain rs1 c1 s1 where r: "run c ops s = (rs1, c1, s1)"
      by (cases "run c ops s") auto
    from Cons.prems DoConnect r have "rs = Connected (Inr \<lparr>flinkConn.client = client c, flinkConn.sessionHandle = sessionHandle c\<rparr>) # rs1" "c' = c1" "s' = s1"
      by (simp_all add: Connect_with_handle)
    with Cons.IH [OF Cons.prems(1) r] DoConnect show ?thesis by auto
  next
    case DoClose
    obtain r0 c0 s0 where cl: "Close c s = (r0, c0, s0)"
      by (cases "Close c s") auto
    from Close_with_handle [OF Cons.prems(1) cl]
    have c0: "r0 = None" "c0 = c" "calls s0 = calls s @ [CloseSessionCall (sessionHandle c)]"
      by simp_all
    obtain rs1 c1 s1 where r: "run c ops s0 = (rs1, c1, s1)"
      by (cases "run c ops s0") auto
    from Cons.prems DoClose cl c0 r have "rs = Closed None # rs1" "c' = c1" "s' = s1"
      by simp_all
    with Cons.IH [OF Cons.prems(1) r] DoClose c0 show ?thesis
      by (auto simp: replicate_append_same)
  next
    case (Elsewhere f)
    obtain rs1 c1 s1 where r: "run c ops (s\<lparr>gateway := f (gateway s)\<rparr>) = (rs1, c1, s1)"
      by (cases "run c ops (s\<lparr>gateway := f (gateway s)\<rparr>)") auto
    from Cons.prems Elsewhere r have "rs = Skipped # rs1" "c' = c1" "s' = s1"
      by simp_all
    with Cons.IH [OF Cons.prems(1) r] Elsewhere show ?thesis by auto
  qed
qed

lemma Connect_fresh:
  "sessionHandle c = '''' \<Longrightarrow> Connect c ctx s = (Inr conn, c1, s1) \<Longrightarrow>
   calls s1 = calls s @ [OpenSessionCall \<lparr>OpenSessionRequest.Properties = properties c\<rparr>]
   \<and> c1 = c\<lparr>sessionHandle := flinkConn.sessionHandle conn\<rparr>
   \<and> flinkConn.client conn = client c"
  by (auto simp: Connect_def do_OpenSession_def Let_def split: prod.splits option.splits)

text \<open>
  C1 (as amended). On a connector whose handle is empty, a \<open>Connect\<close> that succeeds issues
  exactly one \<open>OpenSession\<close> call, with the properties of the connector, and stores the
  handle it returns. If that handle is not empty, then over every later history of the
  connector (calls of \<open>Connect\<close> and \<open>Close\<close>, changes of the gateway in between) the
  connector stays as it is, every \<open>Connect\<close> returns the same connection, bound to that
  handle, and no further \<open>OpenSession\<close> call is issued.
\<close>

theorem Connect_opens_session_once:
  assumes "sessionHandle c = ''''"
    and "Connect c ctx s = (Inr conn, c1, s1)"
    and "flinkConn.sessionHandle conn \<noteq> ''''"
    and "run c1 ops s1 = (rs, c2, s2)"
  shows "calls s1 = calls s @ [OpenSessionCall \<lparr>OpenSessionRequest.Properties = properties c\<rparr>]
   \<and> c1 = c\<lparr>sessionHandle := flinkConn.sessionHandle conn\<rparr>
   \<and> c2 = c1
   \<and> (\<forall>x. Connected x \<in> set rs \<longrightarrow> x = Inr conn)
   \<and> filter is_OpenSessionCall (calls s2) = filter is_OpenSessionCall (calls s1)"
proof -
  from Connect_fresh [OF assms(1,2)]
  have f: "calls s1 = calls s @ [OpenSessionCall \<lparr>OpenSessionRequest.Properties = properties c\<rparr>]"
    "c1 = c\<lparr>sessionHandle := flinkConn.sessionHandle conn\<rparr>"
    "flinkConn.client conn = client c"
    by simp_all
  have h: "sessionHandle c1 \<noteq> ''''"
    using f(2) assms(3) by simp
  have conn: "\<lparr>flinkConn.client = client c1, flinkConn.sessionHandle = sessionHandle c1\<rparr> = conn"
    using f(2,3) by simp
  from run_with_handle [OF h assms(4)] conn
  have r: "c2 = c1" "\<forall>x. Connected x \<in> set rs \<longrightarrow> x = Inr conn"
    "calls s2 = calls s1 @ replicate (length (filter is_DoClose ops)) (CloseSessionCall (sessionHandle c1))"
    by simp_all
  have "filter is_OpenSessionCall (calls s2) = filter is_OpenSessionCall (calls s1)"
    unfolding r(3) by simp
  with f r show ?thesis by blast
qed

text \<open>
  C3 (as amended). \<open>Close\<close> on a connector with a handle issues one \<open>CloseSession\<close> call
  for it, returns \<^verbatim>\<open>nil\<close> and leaves the connector as it is. Over every later history the
  connector still holds the handle: each \<open>Connect\<close> returns a connection bound to it, and
  the only gateway calls issued are the \<open>CloseSession\<close> calls of later calls of \<open>Close\<close>,
  for the same handle.
\<close>

theorem Close_keeps_handle:
  assumes "sessionHandle c \<noteq> ''''"
    and "Close c s = (r, c1, s1)"
    and "run c1 ops s1 = (rs, c2, s2)"
  shows "r = None \<and> c1 = c \<and> c2 = c
   \<and> calls s1 = calls s @ [CloseSessionCall (sessionHandle c)]
   \<and> (\<forall>x. Connected x \<in> set rs \<longrightarrow>
          x = Inr \<lparr>flinkConn.client = client c, flinkConn.sessionHandle = sessionHandle c\<rparr>)
   \<and> calls s2 =
       calls s1 @ replicate (length (filter is_DoClose ops)) (CloseSessionCall (sessionHandle c))"
proof -
  from Close_with_handle [OF assms(1,2)]
  have a: "r = None" "c1 = c" "calls s1 = calls s @ [CloseSessionCall (sessionHandle c)]"
    by simp_all
  from assms(3) a(2) have "run c ops s1 = (rs, c2, s2)" by simp
  from run_with_handle [OF assms(1) this] a show ?thesis by blast
qed

text \<open>
  C1 as stated fails when \<open>OpenSession\<close> answers with no error and an empty handle: the
  empty string is the mark of a connector without a session, so both of two successful
  calls of \<open>Connect\<close> open a session.
\<close>

theorem Connect_blank_handle_counterexample:
  "run blank_connector [DoConnect Background, DoConnect Background] idle_world =
     ([Connected (Inr \<lparr>flinkConn.client = blank_client, flinkConn.sessionHandle = ''''\<rparr>),
       Connected (Inr \<lparr>flinkConn.client = blank_client, flinkConn.sessionHandle = ''''\<rparr>)],
      blank_connector,
      \<lparr>gateway = 2,
       calls = [OpenSessionCall \<lparr>OpenSessionRequest.Properties = properties blank_connector\<rparr>,
                OpenSessionCall \<lparr>OpenSessionRequest.Properties = properties blank_connector\<rparr>]\<rparr>)"
  by (simp add: Connect_def do_OpenSession_def Close_def
      do_CloseSession_def idle_world_def fresh_connector_def blank_connector_def
      blank_client_def)

text \<open>
  C3 as stated fails: after \<open>Close\<close>, \<open>Connect\<close> returns a connection bound to the closed
  handle, and a second \<open>Close\<close> issues a gateway call with it.
\<close>

theorem Connect_after_Close_counterexample:
  "run fresh_connector [DoConnect Background, DoClose, DoConnect Background, DoClose] idle_world =
     ([Connected (Inr session1_conn), Closed None, Connected (Inr session1_conn), Closed None],
      session1_connector,
      \<lparr>gateway = 1,
       calls = [OpenSessionCall \<lparr>OpenSessionRequest.Properties = properties fresh_connector\<rparr>,
                CloseSessionCall ''session-1'', CloseSessionCall ''session-1'']\<rparr>)"
  by (simp add: Connect_def do_OpenSession_def Close_def
      do_CloseSession_def idle_world_def fresh_connector_def example_client_def
      session1_conn_def session1_connector_def)

theorem Connect_opens_session_once_witness:
  "sessionHandle fresh_connector = ''''
   \<and> Connect fresh_connector Background idle_world =
       (Inr session1_conn, session1_connector,
        \<lparr>gateway = 1,
         calls = [OpenSessionCall \<lparr>OpenSessionRequest.Properties = properties fresh_connector\<rparr>]\<rparr>)
   \<and> flinkConn.sessionHandle session1_conn \<noteq> ''''
   \<and> run session1_connector [DoConnect (Ctx 1), Elsewhere Suc, DoClose, DoConnect (Ctx 2)]
         \<lparr>gateway = 1,
          calls = [OpenSessionCall \<lparr>OpenSessionRequest.Properties = properties fresh_connector\<rparr>]\<rparr> =
       ([Connected (Inr session1_conn), Skipped, Closed None, Connected (Inr session1_conn)],
        session1_connector,
        \<lparr>gateway = 2,
         calls = [OpenSessionCall \<lparr>OpenSessionRequest.Properties = properties fresh_connector\<rparr>,
                  CloseSessionCall ''session-1'']\<rparr>)
   \<and> filter is_OpenSessionCall
         [OpenSessionCall \<lparr>OpenSessionRequest.Properties = properties fresh_connector\<rparr>,
          CloseSessionCall ''session-1''] =
       filter is_OpenSessionCall
         [OpenSessionCall \<lparr>OpenSessionRequest.Properties = properties fresh_connector\<rparr>]"
proof -
  have a: "sessionHandle fresh_connector = ''''"
    by (simp add: fresh_connector_def)
  have b: "Connect fresh_connector Background idle_world =
       (Inr session1_conn, session1_connector,
        \<lparr>gateway = 1,
         calls = [OpenSessionCall \<lparr>OpenSessionRequest.Properties = properties fresh_connector\<rparr>]\<rparr>)"
    by (simp add: Connect_def do_OpenSession_def Close_def
      do_CloseSession_def idle_world_def fresh_connector_def example_client_def
      session1_conn_def session1_connector_def)
  have c: "flinkConn.sessionHandle session1_conn \<noteq> ''''"
    by (simp add: session1_conn_def)
  have d: "run session1_connector [DoConnect (Ctx 1), Elsewhere Suc, DoClose, DoConnect (Ctx 2)]
         \<lparr>gateway = 1,
          calls = [OpenSessionCall \<lparr>OpenSessionRequest.Properties = properties fresh_connector\<rparr>]\<rparr> =
       ([Connected (Inr session1_conn), Skipped, Closed None, Connected (Inr session1_conn)],
        session1_connector,
        \<lparr>gateway = 2,
         calls = [OpenSessionCall \<lparr>OpenSessionRequest.Properties = properties fresh_connector\<rparr>,
                  CloseSessionCall ''session-1'']\<rparr>)"
    by (simp add: Connect_def do_OpenSession_def Close_def
      do_CloseSession_def idle_world_def fresh_connector_def example_client_def
      session1_conn_def session1_connector_def)
  from Connect_opens_session_once [OF a b c d] a b c d show ?thesis
    by simp
qed

theorem Close_keeps_handle_witness:
  "sessionHandle session1_connector \<noteq> ''''
   \<and> Close session1_connector \<lparr>gateway = 1, calls = []\<rparr> =
       (None, session1_connector, \<lparr>gateway = 1, calls = [CloseSessionCall ''session-1'']\<rparr>)
   \<and> run session1_connector [DoConnect Background, DoClose]
         \<lparr>gateway = 1, calls = [CloseSessionCall ''session-1'']\<rparr> =
       ([Connected (Inr session1_conn), Closed None], session1_connector,
        \<lparr>gateway = 1, calls = [CloseSessionCall ''session-1'', CloseSessionCall ''session-1'']\<rparr>)
   \<and> Inr session1_conn =
       (Inr \<lparr>flinkConn.client = client session1_connector,
             flinkConn.sessionHandle = sessionHandle session1_connector\<rparr> :: error + nat flinkConn)"
proof -
  have a: "sessionHandle session1_connector \<noteq> ''''"
    by (simp add: session1_connector_def)
  have b: "Close session1_connector \<lparr>gateway = 1, calls = []\<rparr> =
       (None, session1_connector, \<lparr>gateway = 1, calls = [CloseSessionCall ''session-1'']\<rparr>)"
    by (simp add: Connect_def do_OpenSession_def Close_def
      do_CloseSession_def idle_world_def fresh_connector_def example_client_def
      session1_conn_def session1_connector_def)
  have d: "run session1_connector [DoConnect Background, DoClose]
         \<lparr>gateway = 1, calls = [CloseSessionCall ''session-1'']\<rparr> =
       ([Connected (Inr session1_conn), Closed None], session1_connector,
        \<lparr>gateway = 1, calls = [CloseSessionCall ''session-1'', CloseSessionCall ''session-1'']\<rparr>)"
    by (simp add: Connect_def do_OpenSession_def Close_def
      do_CloseSession_def idle_world_def fresh_connector_def example_client_def
      session1_conn_def session1_connector_def)
  from Close_keeps_handle [OF a b d] a b d show ?thesis
    by simp
qed

lemma NewConnector_config:
  "NewConnector pkg options = Inr c \<Longrightarrow> config c = foldl (\<lambda>cfg opt. opt cfg) WithDefaults options"
  by (auto simp: NewConnector_def Let_def split: sum.splits)

lemma options_fieldwise:
  "Properties cfg = Some d \<Longrightarrow>
   foldl (\<lambda>cfg opt. opt cfg) cfg (map option_of xs) =
     \<lparr>GatewayURL = claimed_GatewayURL (GatewayURL cfg) xs,
      Client = claimed_Client (Client cfg) xs,
      APIVersion = claimed_APIVersion (APIVersion cfg) xs,
      Properties = Some (claimed_Properties d xs)\<rparr>"
proof (induction xs arbitrary: cfg d)
  case Nil
  then show ?case by simp
next
  case (Cons x xs)
  show ?case
  proof (cases x)
    case (GatewayURLOption u)
    have "Properties (WithGatewayURL u cfg) = Some d"
      using Cons.prems by (simp add: WithGatewayURL_def)
    from Cons.IH [OF this] GatewayURLOption show ?thesis
      by (simp add: WithGatewayURL_def)
  next
    case (ClientOption h)
    have "Properties (WithClient h cfg) = Some d"
      using Cons.prems by (simp add: WithClient_def)
    from Cons.IH [OF this] ClientOption show ?thesis
      by (simp add: WithClient_def)
  next
    case (APIVersionOption v)
    have "Properties (WithAPIVersion v cfg) = Some d"
      using Cons.prems by (simp add: WithAPIVersion_def)
    from Cons.IH [OF this] APIVersionOption show ?thesis
      by (simp add: WithAPIVersion_def)
  next
    case (PropertiesOption p)
    have e: "WithProperties p cfg = cfg\<lparr>Properties := Some (d ++ entries p)\<rparr>"
      using Cons.prems by (simp add: WithProperties_def entries_def)
    then have "Properties (WithProperties p cfg) = Some (d ++ entries p)"
      by simp
    from Cons.IH [OF this] PropertiesOption e show ?thesis
      by simp
  qed
qed

text \<open>
  C10. Without options, and when \<open>mergeProperties\<close> and \<open>NewClient\<close> succeed on the
  defaults, \<open>NewConnector\<close> returns a connector configured with the gateway URL
  \<^verbatim>\<open>http://localhost:8081\<close>, the default HTTP client, the API version \<^verbatim>\<open>v3\<close> and an empty
  property map. With options, the configuration of the connector is the defaults with
  the options applied in order. For every list of the options of the package, each field
  of the configuration is set by the options of its own kind only: it has the value of
  the last such option (the property map: of all of them, merged in order) and its
  default when there is none. Each option, applied to any configuration, changes its own
  field and no other.
\<close>

theorem NewConnector_defaults:
  "(mergeProperties pkg ''http://localhost:8081'' (Some Map.empty) = Inr m \<longrightarrow>
    NewClient pkg ''http://localhost:8081'' DefaultClient ''v3'' = Inr cl \<longrightarrow>
    NewConnector pkg [] =
      Inr \<lparr>client = cl, sessionHandle = '''',
           config = \<lparr>GatewayURL = ''http://localhost:8081'', Client = DefaultClient,
                     APIVersion = ''v3'', Properties = Some Map.empty\<rparr>,
           properties = m\<rparr>)
   \<and> (NewConnector pkg options = Inr c \<longrightarrow>
        config c = foldl (\<lambda>cfg opt. opt cfg) WithDefaults options)
   \<and> (NewConnector pkg [WithGatewayURL u] = Inr c1 \<longrightarrow>
        config c1 = \<lparr>GatewayURL = u, Client = DefaultClient, APIVersion = ''v3'',
                     Properties = Some Map.empty\<rparr>)
   \<and> (NewConnector pkg [WithClient h] = Inr c2 \<longrightarrow>
        config c2 = \<lparr>GatewayURL = ''http://localhost:8081'', Client = h, APIVersion = ''v3'',
                     Properties = Some Map.empty\<rparr>)
   \<and> (NewConnector pkg [WithAPIVersion v] = Inr c3 \<longrightarrow>
        config c3 = \<lparr>GatewayURL = ''http://localhost:8081'', Client = DefaultClient,
                     APIVersion = v, Properties = Some Map.empty\<rparr>)
   \<and> (NewConnector pkg [WithProperties p] = Inr c4 \<longrightarrow>
        config c4 = \<lparr>GatewayURL = ''http://localhost:8081'', Client = DefaultClient,
                     APIVersion = ''v3'', Properties = Some (entries p)\<rparr>)
   \<and> (NewConnector pkg (map option_of xs) = Inr c5 \<longrightarrow>
        config c5 = \<lparr>GatewayURL = claimed_GatewayURL ''http://localhost:8081'' xs,
                     Client = claimed_Client DefaultClient xs,
                     APIVersion = claimed_APIVersion ''v3'' xs,
                     Properties = Some (claimed_Properties Map.empty xs)\<rparr>)
   \<and> WithGatewayURL u cfg = cfg\<lparr>GatewayURL := u\<rparr>
   \<and> WithClient h cfg = cfg\<lparr>Client := h\<rparr>
   \<and> WithAPIVersion v cfg = cfg\<lparr>APIVersion := v\<rparr>
   \<and> WithProperties p cfg = cfg\<lparr>Properties := Some (entries (Properties cfg) ++ entries p)\<rparr>"
proof -
  have a: "mergeProperties pkg ''http://localhost:8081'' (Some Map.empty) = Inr m \<longrightarrow>
    NewClient pkg ''http://localhost:8081'' DefaultClient ''v3'' = Inr cl \<longrightarrow>
    NewConnector pkg [] =
      Inr \<lparr>client = cl, sessionHandle = '''',
           config = \<lparr>GatewayURL = ''http://localhost:8081'', Client = DefaultClient,
                     APIVersion = ''v3'', Properties = Some Map.empty\<rparr>,
           properties = m\<rparr>"
    by (simp add: NewConnector_def WithDefaults_def)
  have b: "NewConnector pkg options = Inr c \<longrightarrow>
        config c = foldl (\<lambda>cfg opt. opt cfg) WithDefaults options"
    using NewConnector_config by blast
  have c1: "NewConnector pkg [WithGatewayURL u] = Inr c1 \<longrightarrow>
        config c1 = \<lparr>GatewayURL = u, Client = DefaultClient, APIVersion = ''v3'',
                     Properties = Some Map.empty\<rparr>"
    by (auto dest!: NewConnector_config simp: WithDefaults_def WithGatewayURL_def)
  have c2: "NewConnector pkg [WithClient h] = Inr c2 \<longrightarrow>
        config c2 = \<lparr>GatewayURL = ''http://localhost:8081'', Client = h, APIVersion = ''v3'',
                     Properties = Some Map.empty\<rparr>"
    by (auto dest!: NewConnector_config simp: WithDefaults_def WithClient_def)
  have c3: "NewConnector pkg [WithAPIVersion v] = Inr c3 \<longrightarrow>
        config c3 = \<lparr>GatewayURL = ''http://localhost:8081'', Client = DefaultClient,
                     APIVersion = v, Properties = Some Map.empty\<rparr>"
    by (auto dest!: NewConnector_config simp: WithDefaults_def WithAPIVersion_def)
  have c4: "NewConnector pkg [WithProperties p] = Inr c4 \<longrightarrow>
        config c4 = \<lparr>GatewayURL = ''http://localhost:8081'', Client = DefaultClient,
                     APIVersion = ''v3'', Properties = Some (entries p)\<rparr>"
    by (auto dest!: NewConnector_config simp: WithDefaults_def WithProperties_def entries_def)
  have c5: "NewConnector pkg (map option_of xs) = Inr c5 \<longrightarrow>
        config c5 = \<lparr>GatewayURL = claimed_GatewayURL ''http://localhost:8081'' xs,
                     Client = claimed_Client DefaultClient xs,
                     APIVersion = claimed_APIVersion ''v3'' xs,
                     Properties = Some (claimed_Properties Map.empty xs)\<rparr>"
  proof
    assume "NewConnector pkg (map option_of xs) = Inr c5"
    then have "config c5 = foldl (\<lambda>cfg opt. opt cfg) WithDefaults (map option_of xs)"
      by (rule NewConnector_config)
    moreover have "Properties WithDefaults = Some Map.empty"
      by (simp add: WithDefaults_def)
    ultimately show "config c5 = \<lparr>GatewayURL = claimed_GatewayURL ''http://localhost:8081'' xs,
                     Client = claimed_Client DefaultClient xs,
                     APIVersion = claimed_APIVersion ''v3'' xs,
                     Properties = Some (claimed_Properties Map.empty xs)\<rparr>"
      by (simp add: options_fieldwise WithDefaults_def)
  qed
  have e: "WithGatewayURL u cfg = cfg\<lparr>GatewayURL := u\<rparr>"
    "WithClient h cfg = cfg\<lparr>Client := h\<rparr>"
    "WithAPIVersion v cfg = cfg\<lparr>APIVersion := v\<rparr>"
    "WithProperties p cfg = cfg\<lparr>Properties := Some (entries (Properties cfg) ++ entries p)\<rparr>"
    by (simp_all add: WithGatewayURL_def WithClient_def WithAPIVersion_def WithProperties_def
        entries_def Let_def)
  from a b c1 c2 c3 c4 c5 e show ?thesis by blast
qed

theorem NewConnector_defaults_witness:
  "NewConnector example_package [] = Inr fresh_connector
   \<and> config fresh_connector =
       \<lparr>GatewayURL = ''http://localhost:8081'', Client = DefaultClient, APIVersion = ''v3'',
        Properties = properties fresh_connector\<rparr>
   \<and> NewConnector example_package [WithAPIVersion ''v2'', WithGatewayURL ''http://gw:8083''] =
       Inr (fresh_connector\<lparr>config :=
              WithDefaults\<lparr>GatewayURL := ''http://gw:8083'', APIVersion := ''v2''\<rparr>\<rparr>)
   \<and> NewConnector example_package [WithGatewayURL ''http://gw:8083''] =
       Inr (fresh_connector\<lparr>config := WithDefaults\<lparr>GatewayURL := ''http://gw:8083''\<rparr>\<rparr>)
   \<and> NewConnector example_package [WithClient NilClient] =
       Inr (fresh_connector\<lparr>config := WithDefaults\<lparr>Client := NilClient\<rparr>\<rparr>)
   \<and> NewConnector example_package [WithAPIVersion ''v2''] =
       Inr (fresh_connector\<lparr>config := WithDefaults\<lparr>APIVersion := ''v2''\<rparr>\<rparr>)
   \<and> NewConnector example_package [WithProperties (Some [''a'' \<mapsto> ''1''])] =
       Inr (fresh_connector\<lparr>config := WithDefaults\<lparr>Properties := Some [''a'' \<mapsto> ''1'']\<rparr>,
                             properties := Some [''a'' \<mapsto> ''1'']\<rparr>)
   \<and> APIVersion (config (fresh_connector\<lparr>config := WithDefaults\<lparr>GatewayURL := ''http://gw:8083''\<rparr>\<rparr>))
       = ''v3''
   \<and> NewConnector example_package
         (map option_of [GatewayURLOption ''http://gw:8083'', APIVersionOption ''v2'',
                         GatewayURLOption ''http://gw:8084'']) =
       Inr (fresh_connector\<lparr>config :=
              WithDefaults\<lparr>GatewayURL := ''http://gw:8084'', APIVersion := ''v2''\<rparr>\<rparr>)
   \<and> config (fresh_connector\<lparr>config :=
              WithDefaults\<lparr>GatewayURL := ''http://gw:8084'', APIVersion := ''v2''\<rparr>\<rparr>) =
       \<lparr>GatewayURL = ''http://gw:8084'', Client = DefaultClient, APIVersion = ''v2'',
        Properties = properties fresh_connector\<rparr>"
proof -
  note d = NewConnector_def example_package_def fresh_connector_def WithDefaults_def
    WithGatewayURL_def WithClient_def WithAPIVersion_def WithProperties_def entries_def
  let ?o = "fresh_connector\<lparr>config :=
              WithDefaults\<lparr>GatewayURL := ''http://gw:8083'', APIVersion := ''v2''\<rparr>\<rparr>"
  let ?c1 = "fresh_connector\<lparr>config := WithDefaults\<lparr>GatewayURL := ''http://gw:8083''\<rparr>\<rparr>"
  let ?c2 = "fresh_connector\<lparr>config := WithDefaults\<lparr>Client := NilClient\<rparr>\<rparr>"
  let ?c3 = "fresh_connector\<lparr>config := WithDefaults\<lparr>APIVersion := ''v2''\<rparr>\<rparr>"
  let ?c4 = "fresh_connector\<lparr>config := WithDefaults\<lparr>Properties := Some [''a'' \<mapsto> ''1'']\<rparr>,
                             properties := Some [''a'' \<mapsto> ''1'']\<rparr>"
  let ?c5 = "fresh_connector\<lparr>config :=
              WithDefaults\<lparr>GatewayURL := ''http://gw:8084'', APIVersion := ''v2''\<rparr>\<rparr>"
  let ?xs = "[GatewayURLOption ''http://gw:8083'', APIVersionOption ''v2'',
              GatewayURLOption ''http://gw:8084'']"
  have m: "mergeProperties example_package ''http://localhost:8081'' (Some Map.empty) = Inr (Some Map.empty)"
    by (simp add: example_package_def)
  have n: "NewClient example_package ''http://localhost:8081'' DefaultClient ''v3'' = Inr example_client"
    by (simp add: example_package_def)
  have o: "NewConnector example_package [WithAPIVersion ''v2'', WithGatewayURL ''http://gw:8083''] = Inr ?o"
    by (simp add: d)
  have c1: "NewConnector example_package [WithGatewayURL ''http://gw:8083''] = Inr ?c1"
    by (simp add: d)
  have c2: "NewConnector example_package [WithClient NilClient] = Inr ?c2"
    by (simp add: d)
  have c3: "NewConnector example_package [WithAPIVersion ''v2''] = Inr ?c3"
    by (simp add: d)
  have c4: "NewConnector example_package [WithProperties (Some [''a'' \<mapsto> ''1''])] = Inr ?c4"
    by (simp add: d)
  have c5: "NewConnector example_package (map option_of ?xs) = Inr ?c5"
    by (simp add: d)
  note T = NewConnector_defaults [where pkg = example_package and m = "Some Map.empty"
      and cl = example_client
      and options = "[WithAPIVersion ''v2'', WithGatewayURL ''http://gw:8083'']"
      and c = ?o and u = "''http://gw:8083''" and ?c1.0 = ?c1 and h = NilClient
      and ?c2.0 = ?c2 and v = "''v2''" and ?c3.0 = ?c3 and p = "Some [''a'' \<mapsto> ''1'']"
      and ?c4.0 = ?c4 and xs = ?xs and ?c5.0 = ?c5 and cfg = WithDefaults]
  from T m n have r0: "NewConnector example_package [] =
      Inr \<lparr>client = example_client, sessionHandle = '''',
           config = \<lparr>GatewayURL = ''http://localhost:8081'', Client = DefaultClient,
                     APIVersion = ''v3'', Properties = Some Map.empty\<rparr>,
           properties = Some Map.empty\<rparr>"
    by (elim conjE) (erule mp [OF mp])
  from T c5 have r5: "config ?c5 =
      \<lparr>GatewayURL = claimed_GatewayURL ''http://localhost:8081'' ?xs,
       Client = claimed_Client DefaultClient ?xs,
       APIVersion = claimed_APIVersion ''v3'' ?xs,
       Properties = Some (claimed_Properties Map.empty ?xs)\<rparr>"
    by (elim conjE) (erule (1) mp)
  have s0: "NewConnector example_package [] = Inr fresh_connector"
    using r0 by (simp add: fresh_connector_def WithDefaults_def)
  have s1: "config fresh_connector =
       \<lparr>GatewayURL = ''http://localhost:8081'', Client = DefaultClient, APIVersion = ''v3'',
        Properties = properties fresh_connector\<rparr>"
    by (simp add: fresh_connector_def WithDefaults_def)
  have s2: "APIVersion (config ?c1) = ''v3''"
    by (simp add: WithDefaults_def)
  have s5: "config ?c5 =
       \<lparr>GatewayURL = ''http://gw:8084'', Client = DefaultClient, APIVersion = ''v2'',
        Properties = properties fresh_connector\<rparr>"
    using r5 by (simp add: fresh_connector_def)
  show ?thesis
    apply (intro conjI)
             apply (rule s0)
            apply (rule s1)
           apply (rule o)
          apply (rule c1)
         apply (rule c2)
        apply (rule c3)
       apply (rule c4)
      apply (rule s2)
     apply (rule c5)
    apply (rule s5)
    done
qed

subsection \<open>Connection strings\<close>

lemma Cut_absent: "sep \<notin> set s \<Longrightarrow> Cut s sep = (s, [], False)"
  by (induction s) auto

lemma Cut_first: "sep \<notin> set a \<Longrightarrow> Cut (a @ sep # b) sep = (a, b, True)"
  by (induction a) auto

lemma Cut_found: "Cut s sep = (a, b, True) \<Longrightarrow> s = a @ sep # b \<and> sep \<notin> set a"
  by (induction s arbitrary: a) (auto split: if_splits prod.splits)

lemma Split_absent: "sep \<notin> set s \<Longrightarrow> Split s sep = [s]"
  by (induction s) auto

lemma Split_first: "sep \<notin> set a \<Longrightarrow> Split (a @ sep # b) sep = a # Split b sep"
  by (induction a) auto

lemma Split_query_of:
  "list_all plain kvs \<Longrightarrow> kvs \<noteq> [] \<Longrightarrow> Split (query_of kvs) CHR ''&'' = map fragment kvs"
proof (induction kvs rule: query_of.induct)
  case 1
  then show ?case by simp
next
  case (2 k v)
  then show ?case by (simp add: plain_def fragment_def Split_absent)
next
  case (3 k v kv kvs)
  have "CHR ''&'' \<notin> set (k @ ''='' @ v)"
    using 3 by (simp add: plain_def)
  from Split_first [OF this, of "query_of (kv # kvs)"] 3 show ?case
    by (simp add: fragment_def)
qed

lemma parse_fragments_plain:
  "list_all plain kvs \<Longrightarrow>
   parse_fragments (map fragment kvs) m = Inr (Some (m ++ map_of (rev kvs)))"
proof (induction kvs arbitrary: m)
  case Nil
  then show ?case by simp
next
  case (Cons kv kvs)
  obtain k v where kv: "kv = (k, v)" by (cases kv)
  have c: "Cut (fragment kv) CHR ''='' = (k, v, True)"
    using Cons.prems kv Cut_first [of "CHR ''=''" k v] by (simp add: plain_def fragment_def)
  have "m(k \<mapsto> v) ++ map_of (rev kvs) = m ++ map_of (rev kvs @ [(k, v)])"
    by (simp add: map_add_def fun_eq_iff split: option.splits)
  with Cons c kv show ?case by simp
qed

lemma query_of_nonempty: "kvs \<noteq> [] \<Longrightarrow> query_of kvs \<noteq> []"
  by (induction kvs rule: query_of.induct) auto

lemma parse_query_of:
  "list_all plain kvs \<Longrightarrow> kvs \<noteq> [] \<Longrightarrow>
   spec_parseURIParameters (query_of kvs) = Inr (Some (map_of (rev kvs)))"
  by (simp add: spec_parseURIParameters_def Split_query_of parse_fragments_plain)

lemma parse_fragments_malformed:
  "f \<in> set fs \<Longrightarrow> CHR ''='' \<notin> set f \<Longrightarrow> \<exists>g. parse_fragments fs m = Inl (ConfigError g)"
proof (induction fs arbitrary: m)
  case Nil
  then show ?case by simp
next
  case (Cons a fs)
  show ?case
  proof (cases "Cut a CHR ''=''")
    case (fields k v found)
    show ?thesis
    proof (cases found)
      case True
      with fields have "CHR ''='' \<in> set a" using Cut_found by fastforce
      with Cons.prems have "f \<in> set fs" by auto
      from Cons.IH [OF this Cons.prems(2)] fields True show ?thesis by simp
    next
      case False
      with fields show ?thesis by simp
    qed
  qed
qed

lemma spec_mergeProperties_plain_url:
  "CHR ''?'' \<notin> set url \<Longrightarrow> spec_mergeProperties url p = Inr (Some (entries p))"
  by (simp add: spec_mergeProperties_def Cut_absent)

lemma map_of_rev_nonempty: "kvs \<noteq> [] \<Longrightarrow> dom (map_of (rev kvs)) \<noteq> {}"
  by (cases kvs) (auto simp: dom_map_of_conv_image_fst)

lemma OpenConnector_well_formed:
  assumes url: "CHR ''?'' \<notin> set url"
    and kvs: "list_all plain kvs"
    and cl: "newClient url DefaultClient ''v3'' = Inr cl"
  shows "OpenConnector (spec_package newClient) (url @ ''?'' @ query_of kvs) =
      Inr \<lparr>client = cl, sessionHandle = '''',
           config = \<lparr>GatewayURL = url, Client = DefaultClient, APIVersion = ''v3'',
                     Properties = Some (map_of (rev kvs))\<rparr>,
           properties = Some (map_of (rev kvs))\<rparr>"
proof -
  have cut: "Cut (url @ ''?'' @ query_of kvs) CHR ''?'' = (url, query_of kvs, True)"
    using Cut_first [OF url, of "query_of kvs"] by simp
  show ?thesis
  proof (cases "kvs = []")
    case True
    with cut url cl show ?thesis
      by (simp add: OpenConnector_def NewConnector_def spec_package_def len_is_zero_def
          entries_def WithDefaults_def WithGatewayURL_def spec_mergeProperties_plain_url)
  next
    case False
    have q: "query_of kvs \<noteq> []" using False by (rule query_of_nonempty)
    have p: "spec_parseURIParameters (query_of kvs) = Inr (Some (map_of (rev kvs)))"
      using kvs False by (rule parse_query_of)
    have n: "\<not> len_is_zero (Some (map_of (rev kvs)))"
      using map_of_rev_nonempty [OF False] by (simp add: len_is_zero_def entries_def)
    from cut q p n url cl show ?thesis
      by (simp add: OpenConnector_def NewConnector_def spec_package_def
          entries_def WithDefaults_def WithGatewayURL_def WithProperties_def
          spec_mergeProperties_plain_url)
  qed
qed

lemma OpenConnector_malformed:
  assumes cut: "Cut dsn CHR ''?'' = (base, query, True)"
    and f: "f \<in> set (Split query CHR ''&'')" "f \<noteq> []" "CHR ''='' \<notin> set f"
  shows "\<exists>e. OpenConnector (spec_package newClient) dsn = Inl e \<and> is_ConfigError e"
proof -
  have q: "query \<noteq> []" using f(1,2) by auto
  from parse_fragments_malformed [OF f(1) f(3)]
  obtain g where "spec_parseURIParameters query = Inl (ConfigError g)"
    unfolding spec_parseURIParameters_def by blast
  with cut q show ?thesis
    by (simp add: OpenConnector_def spec_package_def)
qed

text \<open>
  C2. For a connection string \<^verbatim>\<open>url?k1=v1&...&kn=vn\<close> (no \<^verbatim>\<open>?\<close> in the URL, no \<^verbatim>\<open>=\<close>
  or \<^verbatim>\<open>&\<close> in a key, no \<^verbatim>\<open>&\<close> in a value) on which \<open>NewClient\<close> succeeds,
  \<open>OpenConnector\<close> returns a connector whose gateway URL is the text before the \<^verbatim>\<open>?\<close> and
  whose properties are the keys with their values (the last value for a repeated key). For
  a connection string whose query has a non-empty fragment without \<^verbatim>\<open>=\<close>,
  \<open>OpenConnector\<close> fails with a configuration error.
\<close>

theorem OpenConnector_parses_dsn:
  "(CHR ''?'' \<notin> set url \<longrightarrow> list_all plain kvs \<longrightarrow> newClient url DefaultClient ''v3'' = Inr cl \<longrightarrow>
      OpenConnector (spec_package newClient) (url @ ''?'' @ query_of kvs) =
        Inr \<lparr>client = cl, sessionHandle = '''',
             config = \<lparr>GatewayURL = url, Client = DefaultClient, APIVersion = ''v3'',
                       Properties = Some (map_of (rev kvs))\<rparr>,
             properties = Some (map_of (rev kvs))\<rparr>)
   \<and> (Cut dsn CHR ''?'' = (base, query, True) \<longrightarrow> f \<in> set (Split query CHR ''&'') \<longrightarrow>
        f \<noteq> [] \<longrightarrow> CHR ''='' \<notin> set f \<longrightarrow>
        (\<exists>e. OpenConnector (spec_package newClient) dsn = Inl e \<and> is_ConfigError e))"
  using OpenConnector_well_formed OpenConnector_malformed by blast

theorem OpenConnector_parses_dsn_witness:
  "OpenConnector (spec_package example_newClient) ''http://example.com:8083?opt1=val1&opt2=val2'' =
     Inr \<lparr>client = example_client, sessionHandle = '''',
          config = \<lparr>GatewayURL = ''http://example.com:8083'', Client = DefaultClient,
                    APIVersion = ''v3'',
                    Properties = Some [''opt1'' \<mapsto> ''val1'', ''opt2'' \<mapsto> ''val2'']\<rparr>,
          properties = Some [''opt1'' \<mapsto> ''val1'', ''opt2'' \<mapsto> ''val2'']\<rparr>
   \<and> (\<exists>e. OpenConnector (spec_package example_newClient) ''http://example.com:8083?opt1'' = Inl e
          \<and> is_ConfigError e)"
proof -
  have a: "CHR ''?'' \<notin> set ''http://example.com:8083''"
    by simp
  have b: "list_all plain [(''opt1'', ''val1''), (''opt2'', ''val2'')]"
    by (simp add: plain_def)
  have c: "example_newClient ''http://example.com:8083'' DefaultClient ''v3'' = Inr example_client"
    by (simp add: example_newClient_def)
  have d: "Cut ''http://example.com:8083?opt1'' CHR ''?'' = (''http://example.com:8083'', ''opt1'', True)"
    by simp
  have e: "''opt1'' \<in> set (Split ''opt1'' CHR ''&'')" "''opt1'' \<noteq> []" "CHR ''='' \<notin> set ''opt1''"
    by simp_all
  from OpenConnector_parses_dsn [where url = "''http://example.com:8083''"
      and kvs = "[(''opt1'', ''val1''), (''opt2'', ''val2'')]"
      and newClient = example_newClient and cl = example_client
      and dsn = "''http://example.com:8083?opt1''" and base = "''http://example.com:8083''"
      and query = "''opt1''" and f = "''opt1''"] a b c d e
  show ?thesis by simp
qed

subsection \<open>Merging session properties\<close>

lemma WithProperties_eq:
  "WithProperties p c = c\<lparr>Properties := Some (entries (Properties c) ++ entries p)\<rparr>"
  by (simp add: WithProperties_def entries_def Let_def)

lemma WithProperties_twice:
  "WithProperties q (WithProperties p c) =
   c\<lparr>Properties := Some (entries (Properties c) ++ entries p ++ entries q)\<rparr>"
  by (simp add: WithProperties_eq entries_def)

lemma NewConnector_properties:
  "NewConnector pkg options = Inr conn \<Longrightarrow>
   mergeProperties pkg (GatewayURL (foldl (\<lambda>cfg opt. opt cfg) WithDefaults options))
     (Properties (foldl (\<lambda>cfg opt. opt cfg) WithDefaults options)) = Inr (properties conn)"
  by (auto simp: NewConnector_def Let_def split: sum.splits)

lemma spec_mergeProperties_query:
  assumes "CHR ''?'' \<notin> set base" "query \<noteq> []" "spec_parseURIParameters query = Inr urlProps"
  shows "spec_mergeProperties (base @ ''?'' @ query) explicit =
         Inr (Some (entries urlProps ++ entries explicit))"
  using assms Cut_first [of "CHR ''?''" base query]
  by (simp add: spec_mergeProperties_def)

text \<open>
  C7. Applying \<open>WithProperties p\<close> and then \<open>WithProperties q\<close> gives the properties of the
  configuration overridden by \<open>p\<close> and then by \<open>q\<close>: a key of \<open>q\<close> has the value \<open>q\<close> gives
  it (\<^verbatim>\<open>{a:1}\<close> then \<^verbatim>\<open>{a:2}\<close> yields \<^verbatim>\<open>{a:2}\<close>), and for maps with disjoint keys the
  order of the two does not matter. In a connector built from a gateway URL with a query
  and explicit properties, the session properties are the URL-derived ones overridden by
  the explicit ones.
\<close>

theorem property_merge:
  "Properties (WithProperties q (WithProperties p c)) =
     Some (entries (Properties c) ++ entries p ++ entries q)
   \<and> (k \<in> dom (entries q) \<longrightarrow>
        entries (Properties (WithProperties q (WithProperties p c))) k = entries q k)
   \<and> Properties (WithProperties (Some [''a'' \<mapsto> ''2''])
                   (WithProperties (Some [''a'' \<mapsto> ''1'']) WithDefaults)) =
       Some [''a'' \<mapsto> ''2'']
   \<and> (dom (entries p) \<inter> dom (entries q) = {} \<longrightarrow>
        WithProperties q (WithProperties p c) = WithProperties p (WithProperties q c))
   \<and> (CHR ''?'' \<notin> set base \<longrightarrow> query \<noteq> [] \<longrightarrow> spec_parseURIParameters query = Inr urlProps \<longrightarrow>
        NewConnector (spec_package newClient)
          [WithGatewayURL (base @ ''?'' @ query), WithProperties explicit] = Inr conn \<longrightarrow>
        properties conn = Some (entries urlProps ++ entries explicit)
        \<and> (\<forall>j \<in> dom (entries explicit). entries (properties conn) j = entries explicit j))"
proof -
  have a: "Properties (WithProperties q (WithProperties p c)) =
     Some (entries (Properties c) ++ entries p ++ entries q)"
    by (simp add: WithProperties_twice)
  have b: "k \<in> dom (entries q) \<longrightarrow>
        entries (Properties (WithProperties q (WithProperties p c))) k = entries q k"
    by (auto simp: WithProperties_twice entries_def map_add_def split: option.splits)
  have e: "Properties (WithProperties (Some [''a'' \<mapsto> ''2''])
                   (WithProperties (Some [''a'' \<mapsto> ''1'']) WithDefaults)) =
       Some [''a'' \<mapsto> ''2'']"
    by (simp add: WithProperties_twice WithDefaults_def entries_def)
  have d: "dom (entries p) \<inter> dom (entries q) = {} \<longrightarrow>
        WithProperties q (WithProperties p c) = WithProperties p (WithProperties q c)"
  proof
    assume "dom (entries p) \<inter> dom (entries q) = {}"
    then have "entries p ++ entries q = entries q ++ entries p"
      by (rule map_add_comm)
    then have "entries (Properties c) ++ entries p ++ entries q =
               entries (Properties c) ++ entries q ++ entries p"
      by (metis map_add_assoc)
    then show "WithProperties q (WithProperties p c) = WithProperties p (WithProperties q c)"
      by (simp add: WithProperties_twice)
  qed
  have f: "CHR ''?'' \<notin> set base \<longrightarrow> query \<noteq> [] \<longrightarrow> spec_parseURIParameters query = Inr urlProps \<longrightarrow>
        NewConnector (spec_package newClient)
          [WithGatewayURL (base @ ''?'' @ query), WithProperties explicit] = Inr conn \<longrightarrow>
        properties conn = Some (entries urlProps ++ entries explicit)
        \<and> (\<forall>j \<in> dom (entries explicit). entries (properties conn) j = entries explicit j)"
  proof (intro impI)
    assume h: "CHR ''?'' \<notin> set base" "query \<noteq> []" "spec_parseURIParameters query = Inr urlProps"
      and n: "NewConnector (spec_package newClient)
          [WithGatewayURL (base @ ''?'' @ query), WithProperties explicit] = Inr conn"
    from NewConnector_properties [OF n]
    have "spec_mergeProperties (base @ ''?'' @ query) (Some (entries explicit)) = Inr (properties conn)"
      by (simp add: spec_package_def WithGatewayURL_def WithProperties_eq WithDefaults_def entries_def)
    with spec_mergeProperties_query [OF h, of "Some (entries explicit)"]
    have p: "properties conn = Some (entries urlProps ++ entries explicit)"
      by (simp add: entries_def)
    then show "properties conn = Some (entries urlProps ++ entries explicit)
        \<and> (\<forall>j \<in> dom (entries explicit). entries (properties conn) j = entries explicit j)"
      by (auto simp: entries_def map_add_def split: option.splits)
  qed
  from a b e d f show ?thesis by blast
qed

theorem property_merge_witness:
  "''b'' \<in> dom (entries (Some [''b'' \<mapsto> ''2'']))
   \<and> entries (Properties (WithProperties (Some [''b'' \<mapsto> ''2''])
                 (WithProperties (Some [''a'' \<mapsto> ''1'']) WithDefaults))) ''b'' = Some ''2''
   \<and> dom (entries (Some [''a'' \<mapsto> ''1''])) \<inter> dom (entries (Some [''b'' \<mapsto> ''2''])) = {}
   \<and> WithProperties (Some [''b'' \<mapsto> ''2'']) (WithProperties (Some [''a'' \<mapsto> ''1'']) WithDefaults) =
       WithProperties (Some [''a'' \<mapsto> ''1'']) (WithProperties (Some [''b'' \<mapsto> ''2'']) WithDefaults)
   \<and> CHR ''?'' \<notin> set ''http://gw:8083''
   \<and> spec_parseURIParameters ''a=1&b=2'' = Inr (Some [''a'' \<mapsto> ''1'', ''b'' \<mapsto> ''2''])
   \<and> NewConnector (spec_package example_newClient)
         [WithGatewayURL ''http://gw:8083?a=1&b=2'', WithProperties (Some [''a'' \<mapsto> ''9''])] =
       Inr merged_connector
   \<and> ''a'' \<in> dom (entries (Some [''a'' \<mapsto> ''9'']))
   \<and> entries (properties merged_connector) ''a'' = Some ''9''"
proof -
  have k: "''b'' \<in> dom (entries (Some [''b'' \<mapsto> ''2'']))"
    by (simp add: entries_def)
  have d: "dom (entries (Some [''a'' \<mapsto> ''1''])) \<inter> dom (entries (Some [''b'' \<mapsto> ''2''])) = {}"
    by (simp add: entries_def)
  have b: "CHR ''?'' \<notin> set ''http://gw:8083''" "''a=1&b=2'' \<noteq> []"
    by simp_all
  have p: "spec_parseURIParameters ''a=1&b=2'' = Inr (Some [''a'' \<mapsto> ''1'', ''b'' \<mapsto> ''2''])"
    by (simp add: spec_parseURIParameters_def)
  have m: "[''a'' \<mapsto> ''1'', ''b'' \<mapsto> ''2''] ++ [''a'' \<mapsto> ''9''] = [''a'' \<mapsto> ''9'', ''b'' \<mapsto> ''2'']"
    by (auto simp: map_add_def fun_eq_iff)
  have n: "NewConnector (spec_package example_newClient)
         ([WithGatewayURL (''http://gw:8083'' @ ''?'' @ ''a=1&b=2''),
           WithProperties (Some [''a'' \<mapsto> ''9''])]) =
       Inr merged_connector"
    using m
    by (simp add: NewConnector_def spec_package_def example_newClient_def merged_connector_def
        WithGatewayURL_def WithProperties_def WithDefaults_def spec_mergeProperties_def p
        entries_def del: map_add_upd)
  have j: "''a'' \<in> dom (entries (Some [''a'' \<mapsto> ''9'']))"
    by (simp add: entries_def)
  note T = property_merge [where q = "Some [''b'' \<mapsto> ''2'']" and p = "Some [''a'' \<mapsto> ''1'']"
      and c = WithDefaults and k = "''b''" and base = "''http://gw:8083''"
      and query = "''a=1&b=2''" and urlProps = "Some [''a'' \<mapsto> ''1'', ''b'' \<mapsto> ''2'']"
      and newClient = example_newClient and explicit = "Some [''a'' \<mapsto> ''9'']"
      and conn = merged_connector]
  from T k have r1: "entries (Properties (WithProperties (Some [''b'' \<mapsto> ''2''])
                 (WithProperties (Some [''a'' \<mapsto> ''1'']) WithDefaults))) ''b'' =
                 entries (Some [''b'' \<mapsto> ''2'']) ''b''"
    by blast
  from T d have r2: "WithProperties (Some [''b'' \<mapsto> ''2'']) (WithProperties (Some [''a'' \<mapsto> ''1'']) WithDefaults) =
       WithProperties (Some [''a'' \<mapsto> ''1'']) (WithProperties (Some [''b'' \<mapsto> ''2'']) WithDefaults)"
    by blast
  from T b p n j have r3: "entries (properties merged_connector) ''a'' = entries (Some [''a'' \<mapsto> ''9'']) ''a''"
    by blast
  have e: "entries (Some [''b'' \<mapsto> ''2'']) ''b'' = Some ''2''"
    "entries (Some [''a'' \<mapsto> ''9'']) ''a'' = Some ''9''"
    by (simp_all add: entries_def)
  have n': "NewConnector (spec_package example_newClient)
         [WithGatewayURL ''http://gw:8083?a=1&b=2'', WithProperties (Some [''a'' \<mapsto> ''9''])] =
       Inr merged_connector"
    using n by simp
  from r1 e(1) have r1': "entries (Properties (WithProperties (Some [''b'' \<mapsto> ''2''])
                 (WithProperties (Some [''a'' \<mapsto> ''1'']) WithDefaults))) ''b'' = Some ''2''"
    by (rule trans)
  from r3 e(2) have r3': "entries (properties merged_connector) ''a'' = Some ''9''"
    by (rule trans)
  show ?thesis
    apply (intro conjI)
            apply (rule k)
           apply (rule r1')
          apply (rule d)
         apply (rule r2)
        apply (rule b(1))
       apply (rule p)
      apply (rule n')
     apply (rule j)
    apply (rule r3')
    done
qed

subsection \<open>Poller, pager and decoder\<close>

lemma poll_waiting_prefix: "list_all waiting pre \<Longrightarrow> poll (pre @ es) = poll es"
proof (induction pre)
  case Nil
  then show ?case by simp
next
  case (Cons e pre)
  then show ?case by (cases e) (auto split: op_status.splits)
qed

lemma poll_success_observed:
  "poll es = Some (Inr (), b) \<Longrightarrow>
   \<exists>pre operation rest. es = pre @ StatusIs operation # rest \<and> list_all waiting pre
      \<and> status operation = FINISHED"
proof (induction es)
  case Nil
  then show ?case by simp
next
  case (Cons e es)
  show ?case
  proof (cases e)
    case (StatusIs operation)
    show ?thesis
    proof (cases "status operation = FINISHED")
      case True
      then have "e # es = [] @ StatusIs operation # es \<and> list_all waiting []
          \<and> status operation = FINISHED"
        using StatusIs by simp
      then show ?thesis by blast
    next
      case False
      with Cons.prems StatusIs have w: "waiting e" and p: "poll es = Some (Inr (), b)"
        by (auto split: op_status.splits)
      from Cons.IH [OF p] obtain pre operation' rest where
        d: "es = pre @ StatusIs operation' # rest" "list_all waiting pre"
          "status operation' = FINISHED"
        by blast
      then have "e # es = (e # pre) @ StatusIs operation' # rest \<and> list_all waiting (e # pre)
          \<and> status operation' = FINISHED"
        using w by simp
      then show ?thesis by blast
    qed
  qed (use Cons.prems in auto)
qed

text \<open>
  C4. The poller returns success exactly when, after rounds that observed only
  non-terminal statuses, it observes FINISHED. When the status it observes after such
  rounds is ERROR, it returns \<open>OperationFailed\<close> with the error message; when it is
  CANCELED, it returns \<open>OperationCanceled\<close>.
\<close>

theorem poll_outcome:
  "((\<exists>b. poll es = Some (Inr (), b)) \<longleftrightarrow>
      (\<exists>pre operation rest. es = pre @ StatusIs operation # rest \<and> list_all waiting pre
         \<and> status operation = FINISHED))
   \<and> (list_all waiting before \<longrightarrow> status failed = ERROR \<longrightarrow>
        poll (before @ StatusIs failed # after) =
          Some (Inl (OperationFailed (case errorMessage failed of None \<Rightarrow> [] | Some m \<Rightarrow> m)),
                False))
   \<and> (list_all waiting before \<longrightarrow> status canceled = CANCELED \<longrightarrow>
        poll (before @ StatusIs canceled # after) = Some (Inl OperationCanceled, False))"
proof -
  have a: "(\<exists>b. poll es = Some (Inr (), b)) \<longleftrightarrow>
      (\<exists>pre operation rest. es = pre @ StatusIs operation # rest \<and> list_all waiting pre
         \<and> status operation = FINISHED)"
  proof
    assume "\<exists>b. poll es = Some (Inr (), b)"
    then show "\<exists>pre operation rest. es = pre @ StatusIs operation # rest \<and> list_all waiting pre
         \<and> status operation = FINISHED"
      using poll_success_observed by blast
  next
    assume "\<exists>pre operation rest. es = pre @ StatusIs operation # rest \<and> list_all waiting pre
         \<and> status operation = FINISHED"
    then obtain pre operation rest where
      d: "es = pre @ StatusIs operation # rest" "list_all waiting pre" "status operation = FINISHED"
      by blast
    then have "poll es = Some (Inr (), False)"
      by (simp add: poll_waiting_prefix)
    then show "\<exists>b. poll es = Some (Inr (), b)" by blast
  qed
  have b: "list_all waiting before \<longrightarrow> status failed = ERROR \<longrightarrow>
        poll (before @ StatusIs failed # after) =
          Some (Inl (OperationFailed (case errorMessage failed of None \<Rightarrow> [] | Some m \<Rightarrow> m)),
                False)"
    by (simp add: poll_waiting_prefix)
  have c: "list_all waiting before \<longrightarrow> status canceled = CANCELED \<longrightarrow>
        poll (before @ StatusIs canceled # after) = Some (Inl OperationCanceled, False)"
    by (simp add: poll_waiting_prefix)
  from a b c show ?thesis by blast
qed

text \<open>
  C5. For a chain of pages \<open>P1, ..., Pn\<close> served from a token (no token for the first
  page of a result), of which only \<open>Pn\<close> has no token, the pager, given fuel for \<open>n\<close>
  fetches, returns the rows of \<open>P1\<close>, ..., \<open>Pn\<close> concatenated in this order: every row
  once and in place, whether or not a page with a token is empty.
\<close>

theorem pager_concatenates:
  "chain fetch token ps \<Longrightarrow> length ps \<le> fuel \<Longrightarrow>
   pager fuel fetch token = Some (Inr (concat (map rows ps)))"
proof (induction fetch token ps arbitrary: fuel rule: chain.induct)
  case (1 fetch token)
  then show ?case by simp
next
  case (2 fetch token p)
  then obtain n where "fuel = Suc n" by (cases fuel) auto
  with 2 show ?case by simp
next
  case (3 fetch token p q ps)
  then obtain n where n: "fuel = Suc n" by (cases fuel) auto
  from 3 obtain t where t: "nextPageToken p = Some t" by auto
  from 3 n have "pager n fetch (nextPageToken p) = Some (Inr (concat (map rows (q # ps))))"
    by simp
  with 3 n t show ?case by simp
qed

text \<open>
  C6. A null cell in a nullable column decodes to \<open>Absent\<close>, whatever the declared type;
  a null cell in a non-nullable column fails with a decode error.
\<close>

theorem decode_null:
  "(nullable col \<longrightarrow> decode prim NullMarker col = Inr Absent)
   \<and> (\<not> nullable col \<longrightarrow>
        decode prim NullMarker col =
          Inl (DecodeError (name col) (remoteType col) ''null in a non-nullable column'')
        \<and> is_DecodeError (DecodeError (name col) (remoteType col) ''null in a non-nullable column''))"
  by (simp add: decode_def)

theorem poll_outcome_witness:
  "list_all waiting [StatusIs (example_operation PENDING None), StatusIs (example_operation RUNNING None)]
   \<and> status (example_operation ERROR (Some ''table not found'')) = ERROR
   \<and> poll ([StatusIs (example_operation PENDING None), StatusIs (example_operation RUNNING None)]
           @ StatusIs (example_operation ERROR (Some ''table not found'')) # []) =
       Some (Inl (OperationFailed ''table not found''), False)
   \<and> status (example_operation CANCELED None) = CANCELED
   \<and> poll ([StatusIs (example_operation PENDING None), StatusIs (example_operation RUNNING None)]
           @ StatusIs (example_operation CANCELED None) # []) =
       Some (Inl OperationCanceled, False)
   \<and> (\<exists>b. poll [StatusIs (example_operation PENDING None),
                  StatusIs (example_operation RUNNING None),
                  StatusIs (example_operation FINISHED None)] = Some (Inr (), b))"
proof -
  let ?p = "StatusIs (example_operation PENDING None)"
  let ?r = "StatusIs (example_operation RUNNING None)"
  have w: "list_all waiting [?p, ?r]"
    by (simp add: example_operation_def)
  have e: "status (example_operation ERROR (Some ''table not found'')) = ERROR"
    by (simp add: example_operation_def)
  have c: "status (example_operation CANCELED None) = CANCELED"
    by (simp add: example_operation_def)
  have m: "(case errorMessage (example_operation ERROR (Some ''table not found'')) of
             None \<Rightarrow> [] | Some m \<Rightarrow> m) = ''table not found''"
    by (simp add: example_operation_def)
  have f: "\<exists>pre operation rest.
      [?p, ?r, StatusIs (example_operation FINISHED None)] = pre @ StatusIs operation # rest
      \<and> list_all waiting pre \<and> status operation = FINISHED"
  proof (intro exI conjI)
    show "[?p, ?r, StatusIs (example_operation FINISHED None)] =
          [?p, ?r] @ StatusIs (example_operation FINISHED None) # []"
      by simp
    show "list_all waiting [?p, ?r]" by (rule w)
    show "status (example_operation FINISHED None) = FINISHED"
      by (simp add: example_operation_def)
  qed
  note T = poll_outcome [where es = "[?p, ?r, StatusIs (example_operation FINISHED None)]"
      and before = "[?p, ?r]" and failed = "example_operation ERROR (Some ''table not found'')"
      and canceled = "example_operation CANCELED None" and after = "[]"]
  from T f have r1: "\<exists>b. poll [?p, ?r, StatusIs (example_operation FINISHED None)] = Some (Inr (), b)"
    by blast
  from T w e have r2: "poll ([?p, ?r] @ StatusIs (example_operation ERROR (Some ''table not found'')) # []) =
      Some (Inl (OperationFailed (case errorMessage (example_operation ERROR (Some ''table not found'')) of
             None \<Rightarrow> [] | Some m \<Rightarrow> m)), False)"
    by blast
  from T w c have r3: "poll ([?p, ?r] @ StatusIs (example_operation CANCELED None) # []) =
      Some (Inl OperationCanceled, False)"
    by blast
  from r2 m have r2': "poll ([?p, ?r] @ StatusIs (example_operation ERROR (Some ''table not found'')) # []) =
      Some (Inl (OperationFailed ''table not found''), False)"
    by simp
  from w e r2' c r3 r1 show ?thesis
    by blast
qed

theorem pager_concatenates_witness:
  "chain example_fetch None
     [example_page [[Payload [49]], [Payload [50]]] (Some ''1''),
      example_page [] (Some ''2''),
      example_page [[Payload [51]]] None]
   \<and> pager 3 example_fetch None = Some (Inr [[Payload [49]], [Payload [50]], [Payload [51]]])"
proof -
  have c: "chain example_fetch None
     [example_page [[Payload [49]], [Payload [50]]] (Some ''1''),
      example_page [] (Some ''2''),
      example_page [[Payload [51]]] None]"
    by (simp add: example_fetch_def example_page_def)
  have l: "length [example_page [[Payload [49]], [Payload [50]]] (Some ''1''),
      example_page [] (Some ''2''),
      example_page [[Payload [51]]] None] \<le> 3"
    by simp
  from pager_concatenates [OF c l] c show ?thesis
    by (simp add: example_page_def)
qed

theorem decode_null_witness:
  "nullable \<lparr>name = ''note'', remoteType = INTEGER, nullable = True\<rparr>
   \<and> decode example_primitives NullMarker \<lparr>name = ''note'', remoteType = INTEGER, nullable = True\<rparr>
       = Inr Absent
   \<and> \<not> nullable \<lparr>name = ''id'', remoteType = INTEGER, nullable = False\<rparr>
   \<and> decode example_primitives NullMarker \<lparr>name = ''id'', remoteType = INTEGER, nullable = False\<rparr>
       = Inl (DecodeError ''id'' INTEGER ''null in a non-nullable column'')"
  using decode_null [of "\<lparr>name = ''note'', remoteType = INTEGER, nullable = True\<rparr>" example_primitives]
    decode_null [of "\<lparr>name = ''id'', remoteType = INTEGER, nullable = False\<rparr>" example_primitives]
  by simp

end
